theory Spec2Isabelle
  imports Complex_Main
begin

section \<open>Numbers and strings of the host language\<close>

text \<open>
  The engine is written in JavaScript. Its numbers are modelled as \<^typ>\<open>real\<close> (counters and
  millisecond clocks as \<^typ>\<open>int\<close>), \<open>null\<close> as \<^term>\<open>None\<close>, and its strings as
  \<^typ>\<open>string\<close>. Rounding of binary floating point, \<open>NaN\<close> and the infinities are outside
  this model; every clock read \<open>Date.now()\<close> is an explicit argument (\<open>now\<close>, or
  \<open>clock\<close> where a function reads the clock more than once), and module-level state is
  passed in and returned.
\<close>

definition digit_char :: "nat \<Rightarrow> char" where
  "digit_char d =
     (if d = 0 then CHR ''0'' else if d = 1 then CHR ''1'' else if d = 2 then CHR ''2''
      else if d = 3 then CHR ''3'' else if d = 4 then CHR ''4'' else if d = 5 then CHR ''5''
      else if d = 6 then CHR ''6'' else if d = 7 then CHR ''7'' else if d = 8 then CHR ''8''
      else CHR ''9'')"

fun show_nat :: "nat \<Rightarrow> string" where
  "show_nat n = (if n < 10 then [digit_char n] else show_nat (n div 10) @ [digit_char (n mod 10)])"

declare show_nat.simps [simp del]

text \<open>\<open>String(i)\<close> for an integer-valued number.\<close>

definition show_int :: "int \<Rightarrow> string" where
  "show_int i = (if i < 0 then CHR ''-'' # show_nat (nat (- i)) else show_nat (nat i))"

text \<open>\<open>Math.round\<close>: the nearest integer, a tie going up.\<close>

definition Math_round :: "real \<Rightarrow> int" where
  "Math_round x = \<lfloor>x + 1 / 2\<rfloor>"

text \<open>
  \<open>x.toFixed(d)\<close>: the integer \<open>n\<close> with \<open>n / 10^d\<close> nearest to \<open>|x|\<close> (the larger one on a
  tie), printed with \<open>d\<close> decimals and the sign of \<open>x\<close>. \<open>parseFloat(x.toFixed(d))\<close> reads
  that numeral back. Where the exact value of a computation is such a tie, the binary
  arithmetic of the source may land on either side of it, and the last digit it prints may
  be the other one; general results about rounded values are therefore stated as bounds.
\<close>

definition toFixed_units :: "nat \<Rightarrow> real \<Rightarrow> nat" where
  "toFixed_units d x = nat \<lfloor>\<bar>x\<bar> * 10 ^ d + 1 / 2\<rfloor>"

definition toFixed :: "nat \<Rightarrow> real \<Rightarrow> string" where
  "toFixed d x =
     (let ds = show_nat (toFixed_units d x);
          padded = replicate (Suc d - length ds) CHR ''0'' @ ds;
          k = length padded - d
      in (if x < 0 then ''-'' else []) @ take k padded
         @ (if d = 0 then [] else CHR ''.'' # drop k padded))"

definition parseFloat_toFixed :: "nat \<Rightarrow> real \<Rightarrow> real" where
  "parseFloat_toFixed d x =
     (if x < 0 then - (real (toFixed_units d x) / 10 ^ d) else real (toFixed_units d x) / 10 ^ d)"

text \<open>
  A quotient whose divisor may be 0. Dividing by 0 gives \<open>Infinity\<close>, \<open>-Infinity\<close> or
  \<open>NaN\<close> by the sign of the dividend; every comparison with \<open>NaN\<close> is false; multiplying
  by 100 leaves the three special values as they are, and \<open>toFixed\<close> prints them by name.
\<close>

datatype js_quotient = Finite real | PosInfinity | NegInfinity | NotANumber

definition js_divide :: "real \<Rightarrow> real \<Rightarrow> js_quotient" where
  "js_divide x y =
     (if y \<noteq> 0 then Finite (x / y)
      else if x > 0 then PosInfinity else if x < 0 then NegInfinity else NotANumber)"

definition js_gt :: "js_quotient \<Rightarrow> real \<Rightarrow> bool" where
  "js_gt q c = (case q of Finite v \<Rightarrow> v > c | PosInfinity \<Rightarrow> True | _ \<Rightarrow> False)"

definition js_ge :: "js_quotient \<Rightarrow> real \<Rightarrow> bool" where
  "js_ge q c = (case q of Finite v \<Rightarrow> v \<ge> c | PosInfinity \<Rightarrow> True | _ \<Rightarrow> False)"

definition js_le :: "js_quotient \<Rightarrow> real \<Rightarrow> bool" where
  "js_le q c = (case q of Finite v \<Rightarrow> v \<le> c | NegInfinity \<Rightarrow> True | _ \<Rightarrow> False)"

definition percentToFixed :: "nat \<Rightarrow> js_quotient \<Rightarrow> string" where
  "percentToFixed d q =
     (case q of Finite v \<Rightarrow> toFixed d (v * 100) | PosInfinity \<Rightarrow> ''Infinity''
      | NegInfinity \<Rightarrow> ''-Infinity'' | NotANumber \<Rightarrow> ''NaN'')"

section \<open>Account risk controller: circuit breaker (advanced-risk.mjs)\<close>

record circuit_breaker =
  isTripped :: bool
  tripTime :: "int option"
  consecutiveLosses :: int
  cooldownPeriod :: int
  maxConsecutiveLosses :: int

definition circuitBreakerState0 :: circuit_breaker where
  "circuitBreakerState0 =
     \<lparr>isTripped = False, tripTime = None, consecutiveLosses = 0,
      cooldownPeriod = 60 * 60 * 1000, maxConsecutiveLosses = 3\<rparr>"

record breaker_check =
  halted :: bool
  reason :: "string option"
  cc_consecutiveLosses :: "int option"
  remainingCooldown :: "int option"
  cc_tripTime :: "int option"

text \<open>In \<open>now - tripTime\<close> a \<open>null\<close> trip time counts as 0.\<close>

definition timeSinceTrip :: "int \<Rightarrow> circuit_breaker \<Rightarrow> int" where
  "timeSinceTrip now s = now - (case tripTime s of None \<Rightarrow> 0 | Some t \<Rightarrow> t)"

definition checkCircuitBreaker :: "int \<Rightarrow> circuit_breaker \<Rightarrow> circuit_breaker \<times> breaker_check" where
  "checkCircuitBreaker now s =
     (if isTripped s then
        (if timeSinceTrip now s \<ge> cooldownPeriod s then
           (s\<lparr>isTripped := False, tripTime := None, consecutiveLosses := 0\<rparr>,
            \<lparr>halted = False, reason = Some ''Circuit breaker reset after cooldown'',
             cc_consecutiveLosses = Some 0, remainingCooldown = None, cc_tripTime = None\<rparr>)
         else
           (s,
            \<lparr>halted = True,
             reason = Some (''Circuit breaker tripped: '' @ show_int (consecutiveLosses s)
                            @ '' consecutive losses''),
             cc_consecutiveLosses = None,
             remainingCooldown =
               Some \<lceil>real_of_int (cooldownPeriod s - timeSinceTrip now s) / 1000 / 60\<rceil>,
             cc_tripTime = tripTime s\<rparr>))
      else
        (s, \<lparr>halted = False, reason = None, cc_consecutiveLosses = Some (consecutiveLosses s),
             remainingCooldown = None, cc_tripTime = None\<rparr>))"

record breaker_update =
  tripped :: bool
  cu_consecutiveLosses :: int
  cooldownMinutes :: "real option"

definition updateCircuitBreaker ::
  "int \<Rightarrow> real \<Rightarrow> circuit_breaker \<Rightarrow> circuit_breaker \<times> breaker_update" where
  "updateCircuitBreaker now tradePnL s =
     (if tradePnL < 0 then
        (let s1 = s\<lparr>consecutiveLosses := consecutiveLosses s + 1\<rparr> in
         if consecutiveLosses s1 \<ge> maxConsecutiveLosses s1 then
           (s1\<lparr>isTripped := True, tripTime := Some now\<rparr>,
            \<lparr>tripped = True, cu_consecutiveLosses = consecutiveLosses s1,
             cooldownMinutes = Some (real_of_int (cooldownPeriod s1) / 1000 / 60)\<rparr>)
         else
           (s1, \<lparr>tripped = False, cu_consecutiveLosses = consecutiveLosses s1,
                 cooldownMinutes = None\<rparr>))
      else if tradePnL > 0 then
        (s\<lparr>consecutiveLosses := 0\<rparr>,
         \<lparr>tripped = False, cu_consecutiveLosses = 0, cooldownMinutes = None\<rparr>)
      else
        (s, \<lparr>tripped = False, cu_consecutiveLosses = consecutiveLosses s,
             cooldownMinutes = None\<rparr>))"

definition resetCircuitBreaker :: "circuit_breaker \<Rightarrow> circuit_breaker" where
  "resetCircuitBreaker s = s\<lparr>isTripped := False, tripTime := None, consecutiveLosses := 0\<rparr>"

section \<open>Account risk controller: exposure limits and Kelly sizing (advanced-risk.mjs)\<close>

text \<open>
  \<open>String(x)\<close> for a number: the decimal numeral of \<open>x\<close>, that is its integer part and, when
  \<open>x\<close> is not an integer, a point and its decimals (at most 17, which is all of them for the
  percentages met here). Exponent notation is not modelled.
\<close>

fun frac_digits :: "nat \<Rightarrow> real \<Rightarrow> string" where
  "frac_digits 0 x = []"
| "frac_digits (Suc n) x =
     (if x = 0 then []
      else digit_char (nat \<lfloor>x * 10\<rfloor>) # frac_digits n (x * 10 - of_int \<lfloor>x * 10\<rfloor>))"

definition Number_toString :: "real \<Rightarrow> string" where
  "Number_toString x =
     (if x < 0 then ''-'' else []) @ show_nat (nat \<lfloor>\<bar>x\<bar>\<rfloor>)
     @ (if \<bar>x\<bar> = of_int \<lfloor>\<bar>x\<bar>\<rfloor> then []
        else CHR ''.'' # frac_digits 17 (\<bar>x\<bar> - of_int \<lfloor>\<bar>x\<bar>\<rfloor>))"

record portfolio_limits =
  maxExposurePerSymbol :: real
  maxTotalExposure :: real
  maxDrawdownPercent :: real
  maxDailyLossPercent :: real

definition portfolioLimits0 :: portfolio_limits where
  "portfolioLimits0 =
     \<lparr>maxExposurePerSymbol = 0.25, maxTotalExposure = 0.75, maxDrawdownPercent = 0.20,
      maxDailyLossPercent = 0.10\<rparr>"

text \<open>
  A stored trade, as far as the exposure computation reads it; a missing \<open>amount\<close> or
  \<open>symbol\<close> is \<^term>\<open>None\<close>.
\<close>

record open_trade =
  ot_status :: string
  ot_amount :: "real option"
  ot_symbol :: "string option"

record symbol_exposure =
  exposure :: real
  exposurePercent :: real
  trades :: nat

text \<open>The object \<open>exposureBySymbol\<close>, with its keys in the order of their insertion.\<close>

type_synonym exposure_table = "(string \<times> symbol_exposure) list"

fun addExposure :: "exposure_table \<Rightarrow> string \<Rightarrow> real \<Rightarrow> exposure_table" where
  "addExposure [] symb e = [(symb, \<lparr>exposure = 0 + e, exposurePercent = 0, trades = 1\<rparr>)]"
| "addExposure ((k, v) # rest) symb e =
     (if k = symb then (k, v\<lparr>exposure := exposure v + e, trades := trades v + 1\<rparr>) # rest
      else (k, v) # addExposure rest symb e)"

text \<open>The loop over the trades: the running total and the table per symbol.\<close>

fun accumulateExposure ::
  "real \<times> exposure_table \<Rightarrow> open_trade list \<Rightarrow> real \<times> exposure_table" where
  "accumulateExposure acc [] = acc"
| "accumulateExposure (totalExp, bySymbol) (trade # rest) =
     (if ot_status trade = ''open'' then
        (let e = (case ot_amount trade of None \<Rightarrow> 0 | Some a \<Rightarrow> a);
             symb = (case ot_symbol trade of None \<Rightarrow> ''UNKNOWN''
                    | Some n \<Rightarrow> if n = [] then ''UNKNOWN'' else n)
         in accumulateExposure (totalExp + e, addExposure bySymbol symb e) rest)
      else accumulateExposure (totalExp, bySymbol) rest)"

record portfolio_exposure =
  totalExposure :: real
  totalExposurePercent :: real
  exposureBySymbol :: exposure_table
  withinLimits :: bool
  totalExceeded :: "bool option"
  symbolExceeded :: "bool option"

definition calculatePortfolioExposure ::
  "portfolio_limits \<Rightarrow> open_trade list \<Rightarrow> real \<Rightarrow> portfolio_exposure" where
  "calculatePortfolioExposure limits openTrades portfolioValue =
     (if length openTrades = 0 then
        \<lparr>totalExposure = 0, totalExposurePercent = 0, exposureBySymbol = [],
         withinLimits = True, totalExceeded = None, symbolExceeded = None\<rparr>
      else
        (let (totalExp, table) = accumulateExposure (0, []) openTrades;
             totalPercent = (if portfolioValue > 0 then totalExp / portfolioValue else 0);
             table' = map (\<lambda>(k, v). (k, v\<lparr>exposurePercent :=
                            (if portfolioValue > 0 then exposure v / portfolioValue else 0)\<rparr>))
                          table;
             totalEx = (totalPercent > maxTotalExposure limits);
             symbolEx = list_ex (\<lambda>(k, v). exposurePercent v > maxExposurePerSymbol limits)
                          table'
         in \<lparr>totalExposure = parseFloat_toFixed 2 totalExp,
             totalExposurePercent = parseFloat_toFixed 2 (totalPercent * 100),
             exposureBySymbol = table',
             withinLimits = (\<not> totalEx \<and> \<not> symbolEx),
             totalExceeded = Some totalEx, symbolExceeded = Some symbolEx\<rparr>))"

record limit_check =
  ok :: bool
  lc_reason :: "string option"
  lc_currentExposure :: "string option"
  limit :: "string option"

definition validatePortfolioLimits ::
  "portfolio_limits \<Rightarrow> string \<Rightarrow> real \<Rightarrow> open_trade list \<Rightarrow> real \<Rightarrow> limit_check" where
  "validatePortfolioLimits limits symb amount openTrades portfolioValue =
     (let currentExposure = calculatePortfolioExposure limits openTrades portfolioValue;
          newTotalExposure = totalExposure currentExposure + amount;
          newTotalPercent = js_divide newTotalExposure portfolioValue;
          currentSymbolExposure =
            (case map_of (exposureBySymbol currentExposure) symb of
               None \<Rightarrow> 0 | Some v \<Rightarrow> exposure v);
          newSymbolExposure = currentSymbolExposure + amount;
          newSymbolPercent = js_divide newSymbolExposure portfolioValue
      in if js_gt newTotalPercent (maxTotalExposure limits) then
           \<lparr>ok = False,
            lc_reason = Some (''Would exceed max total exposure (''
                              @ percentToFixed 1 newTotalPercent @ ''% > ''
                              @ Number_toString (maxTotalExposure limits * 100) @ ''%)''),
            lc_currentExposure = Some (toFixed 1 (totalExposurePercent currentExposure)),
            limit = Some (toFixed 0 (maxTotalExposure limits * 100))\<rparr>
         else if js_gt newSymbolPercent (maxExposurePerSymbol limits) then
           \<lparr>ok = False,
            lc_reason = Some (''Would exceed max exposure for '' @ symb @ '' (''
                              @ percentToFixed 1 newSymbolPercent @ ''% > ''
                              @ Number_toString (maxExposurePerSymbol limits * 100) @ ''%)''),
            lc_currentExposure =
              Some (percentToFixed 1 (js_divide currentSymbolExposure portfolioValue)),
            limit = Some (toFixed 0 (maxExposurePerSymbol limits * 100))\<rparr>
         else \<lparr>ok = True, lc_reason = None, lc_currentExposure = None, limit = None\<rparr>)"

text \<open>
  Three open trades on three symbols, each under a quarter of a portfolio of 10000, with a
  total of 7497.00390625.
\<close>

definition demoOpenTrades :: "open_trade list" where
  "demoOpenTrades =
     [\<lparr>ot_status = ''open'', ot_amount = Some 2499, ot_symbol = Some ''BTCUSD''\<rparr>,
      \<lparr>ot_status = ''open'', ot_amount = Some 2499, ot_symbol = Some ''SOLUSD''\<rparr>,
      \<lparr>ot_status = ''open'', ot_amount = Some (2499 + 1 / 256), ot_symbol = Some ''XRPUSD''\<rparr>]"

record kelly_result =
  kellyPercent :: real
  positionSize :: real
  message :: "string option"
  k_winRate :: "real option"
  k_avgWin :: "real option"
  k_avgLoss :: "real option"
  winLossRatio :: "real option"
  kellyFraction :: "real option"
  recommendation :: "string option"

text \<open>
  The last argument is optional; left out, the safety fraction is 0.25. The fraction and the
  size are the exact reals; at a half-cent tie of the exact value the source may return the
  neighbouring cent.
\<close>

definition calculateKellyPositionSize ::
  "real \<Rightarrow> real \<Rightarrow> real \<Rightarrow> real \<Rightarrow> real option \<Rightarrow> kelly_result" where
  "calculateKellyPositionSize winRate avgWin avgLoss portfolioValue kellyFractionArg =
     (let fraction = (case kellyFractionArg of None \<Rightarrow> 0.25 | Some f \<Rightarrow> f) in
      if winRate = 0 \<or> avgWin = 0 \<or> avgLoss = 0 then
        \<lparr>kellyPercent = 0, positionSize = 0,
         message = Some ''Insufficient data for Kelly calculation'',
         k_winRate = None, k_avgWin = None, k_avgLoss = None, winLossRatio = None,
         kellyFraction = None, recommendation = None\<rparr>
      else
        (let p = winRate / 100;
             q = 1 - p;
             b = avgWin / \<bar>avgLoss\<bar>;
             fullKelly = (p * b - q) / b;
             scaled = fullKelly * fraction;
             clamped = max 0 (min scaled 0.5);
             size = portfolioValue * clamped
         in \<lparr>kellyPercent = parseFloat_toFixed 2 (clamped * 100),
             positionSize = parseFloat_toFixed 2 size,
             message = None,
             k_winRate = Some (parseFloat_toFixed 2 winRate),
             k_avgWin = Some (parseFloat_toFixed 2 avgWin),
             k_avgLoss = Some (parseFloat_toFixed 2 \<bar>avgLoss\<bar>),
             winLossRatio = Some (parseFloat_toFixed 2 b),
             kellyFraction = Some fraction,
             recommendation =
               Some (if size > 0
                     then ''Optimal position size: $'' @ toFixed 2 size @ '' (''
                          @ toFixed 1 (clamped * 100) @ ''% of portfolio)''
                     else ''Current strategy not profitable - avoid trading'')\<rparr>))"

section \<open>Indicator library: relative strength index (indicators-advanced.mjs)\<close>

text \<open>The price changes \<open>closes[i] - closes[i - 1]\<close> for \<open>i = 1, 2, ...\<close>.\<close>

fun changes :: "real list \<Rightarrow> real list" where
  "changes (a # b # rest) = (b - a) # changes (b # rest)"
| "changes _ = []"

text \<open>The seeding loop: the sums of the gains and of the losses.\<close>

fun seedGainsLosses :: "real \<times> real \<Rightarrow> real list \<Rightarrow> real \<times> real" where
  "seedGainsLosses acc [] = acc"
| "seedGainsLosses (gains, losses) (change # rest) =
     (if change > 0 then seedGainsLosses (gains + change, losses) rest
      else seedGainsLosses (gains, losses + \<bar>change\<bar>) rest)"

definition rsiFromAverages :: "real \<Rightarrow> real \<Rightarrow> real" where
  "rsiFromAverages avgGain avgLoss =
     (let rs = (if avgLoss = 0 then 100 else avgGain / avgLoss) in 100 - (100 / (1 + rs)))"

text \<open>The smoothing loop, over the changes after the first \<open>period\<close> ones.\<close>

fun rsiSmoothed :: "nat \<Rightarrow> real \<Rightarrow> real \<Rightarrow> real list \<Rightarrow> real option list" where
  "rsiSmoothed period avgGain avgLoss [] = []"
| "rsiSmoothed period avgGain avgLoss (change # rest) =
     (let gain = (if change > 0 then change else 0);
          loss = (if change < 0 then \<bar>change\<bar> else 0);
          avgGain' = (avgGain * (real period - 1) + gain) / real period;
          avgLoss' = (avgLoss * (real period - 1) + loss) / real period
      in Some (rsiFromAverages avgGain' avgLoss') # rsiSmoothed period avgGain' avgLoss' rest)"

definition rsi :: "real list \<Rightarrow> nat \<Rightarrow> real option list" where
  "rsi closes period =
     (if length closes < period + 1 then replicate (length closes) None
      else
        (let (gains, losses) = seedGainsLosses (0, 0) (take period (changes closes));
             avgGain = gains / real period;
             avgLoss = losses / real period
         in replicate period None @ [Some (rsiFromAverages avgGain avgLoss)]
            @ rsiSmoothed period avgGain avgLoss (drop period (changes closes))))"

section \<open>Indicator library: moving averages, MACD, bands, volume (indicators.mjs, indicators-advanced.mjs)\<close>

text \<open>
  A candle as the exchange adapter produces it; \<open>c_v\<close> is the field \<open>v\<close> that
  \<open>analyzeVolume\<close> reads, \<^term>\<open>None\<close> when the candle has no such field.
\<close>

record candle =
  c_time :: int
  c_open :: real
  c_high :: real
  c_low :: real
  c_close :: real
  c_volume :: real
  c_v :: "real option"

text \<open>
  \<open>xs[xs.length - 1]\<close> and \<open>xs[xs.length - 2]\<close> on an array of numbers and nulls. The arrays
  read this way have the length of the candle window, which is at least 100 where they are
  read; on a shorter array the model returns \<^term>\<open>None\<close>.
\<close>

definition lastValue :: "'a option list \<Rightarrow> 'a option" where
  "lastValue xs = (if xs = [] then None else last xs)"

definition secondLastValue :: "'a option list \<Rightarrow> 'a option" where
  "secondLastValue xs = (if length xs < 2 then None else xs ! (length xs - 2))"

text \<open>The loop of \<open>sma\<close>: index, running sum, and the values still to visit.\<close>

fun smaFrom :: "real list \<Rightarrow> nat \<Rightarrow> nat \<Rightarrow> real \<Rightarrow> real list \<Rightarrow> real option list" where
  "smaFrom values n i acc [] = []"
| "smaFrom values n i acc (x # xs) =
     (let s1 = acc + x;
          s2 = (if i \<ge> n then s1 - values ! (i - n) else s1)
      in (if i + 1 \<ge> n then Some (s2 / real n) else None) # smaFrom values n (Suc i) s2 xs)"

definition sma :: "real list \<Rightarrow> nat \<Rightarrow> real option list" where
  "sma values n = smaFrom values n 0 0 values"

record sma_signal =
  sm_signal :: string
  sm_a :: "real option list"
  sm_b :: "real option list"
  lastIdx :: int

text \<open>
  The loop of \<open>lastSmaSignal\<close> over \<open>i = 1, 2, ...\<close>: the pairs \<open>(a[i], b[i])\<close> from
  \<open>i - 1\<close> on, and the signal and index found so far.
\<close>

fun crossings ::
  "string \<times> int \<Rightarrow> nat \<Rightarrow> (real option \<times> real option) list \<Rightarrow> string \<times> int" where
  "crossings found i ((a0, b0) # (a1, b1) # rest) =
     (let found' =
        (case (a0, b0, a1, b1) of
           (Some pa, Some pb, Some ca, Some cb) \<Rightarrow>
             (let prev = pa - pb; cur = ca - cb;
                  f1 = (if prev \<le> 0 \<and> cur > 0 then (''buy'', int i) else found)
              in if prev \<ge> 0 \<and> cur < 0 then (''sell'', int i) else f1)
         | _ \<Rightarrow> found)
      in crossings found' (Suc i) ((a1, b1) # rest))"
| "crossings found i _ = found"

definition lastSmaSignal :: "real list \<Rightarrow> nat \<Rightarrow> nat \<Rightarrow> sma_signal" where
  "lastSmaSignal closes shortN longN =
     (let a = sma closes shortN;
          b = sma closes longN;
          (sig, idx) = crossings (''hold'', - 1) 1 (zip a b)
      in \<lparr>sm_signal = sig, sm_a = a, sm_b = b, lastIdx = idx\<rparr>)"

definition momentum :: "real list \<Rightarrow> nat \<Rightarrow> real option list" where
  "momentum values period =
     map (\<lambda>i. if i < period then None
               else Some (((values ! i - values ! (i - period)) / values ! (i - period)) * 100))
         [0..<length values]"

text \<open>The window \<open>values.slice(i - period + 1, i + 1)\<close>, for \<open>i + 1 \<ge> period\<close>.\<close>

definition window :: "real list \<Rightarrow> nat \<Rightarrow> nat \<Rightarrow> real list" where
  "window values period i = take period (drop (i + 1 - period) values)"

definition volatility :: "real list \<Rightarrow> nat \<Rightarrow> real option list" where
  "volatility values period =
     map (\<lambda>i. if i + 1 < period then None
               else (let slice = window values period i;
                         mean = sum_list slice / real period;
                         variance = sum_list (map (\<lambda>v. (v - mean)\<^sup>2) slice) / real period
                     in Some (sqrt variance)))
         [0..<length values]"

text \<open>
  \<open>ema\<close>: the mean of the first \<open>period\<close> values, then the recursive multiplier. The
  definition follows the code for \<open>1 \<le> period \<le> values.length\<close>.
\<close>

fun emaFrom :: "real \<Rightarrow> real \<Rightarrow> real list \<Rightarrow> real option list" where
  "emaFrom multiplier prev [] = []"
| "emaFrom multiplier prev (v # vs) =
     (let e = (v - prev) * multiplier + prev in Some e # emaFrom multiplier e vs)"

definition ema :: "real list \<Rightarrow> nat \<Rightarrow> real option list" where
  "ema values period =
     (let multiplier = 2 / (real period + 1);
          seed = sum_list (take period values) / real period
      in replicate (period - 1) None @ [Some seed]
         @ emaFrom multiplier seed (drop period values))"

record macd_result =
  macdLine :: "real option list"
  signalLine :: "real option list"
  histogram :: "real option list"

definition macd :: "real list \<Rightarrow> nat \<Rightarrow> nat \<Rightarrow> nat \<Rightarrow> macd_result" where
  "macd closes fastPeriod slowPeriod signalPeriod =
     (let emaFast = ema closes fastPeriod;
          emaSlow = ema closes slowPeriod;
          line = map (\<lambda>(f, s). case (f, s) of (Some x, Some y) \<Rightarrow> Some (x - y) | _ \<Rightarrow> None)
                   (zip emaFast emaSlow);
          sigl = ema (map (\<lambda>v. case v of None \<Rightarrow> 0 | Some x \<Rightarrow> x) line) signalPeriod;
          hist = map (\<lambda>(m, s). case (m, s) of (Some x, Some y) \<Rightarrow> Some (x - y) | _ \<Rightarrow> None)
                   (zip line sigl)
      in \<lparr>macdLine = line, signalLine = sigl, histogram = hist\<rparr>)"

record bollinger_bands =
  upper :: "real option list"
  middle :: "real option list"
  lower :: "real option list"

definition bandAt :: "real list \<Rightarrow> nat \<Rightarrow> real \<Rightarrow> real option list \<Rightarrow> real \<Rightarrow> nat \<Rightarrow> real option" where
  "bandAt closes period stdDev mid dir i =
     (if i + 1 < period then None
      else (case mid ! i of
              None \<Rightarrow> None
            | Some mean \<Rightarrow>
                (let slice = window closes period i;
                     variance = sum_list (map (\<lambda>v. (v - mean)\<^sup>2) slice) / real period;
                     sd = sqrt variance
                 in Some (mean + dir * (sd * stdDev)))))"

definition bollingerBands :: "real list \<Rightarrow> nat \<Rightarrow> real \<Rightarrow> bollinger_bands" where
  "bollingerBands closes period stdDev =
     (let mid = sma closes period
      in \<lparr>upper = map (bandAt closes period stdDev mid 1) [0..<length closes],
          middle = mid,
          lower = map (bandAt closes period stdDev mid (- 1)) [0..<length closes]\<rparr>)"

record volume_analysis =
  currentVolume :: real
  avgVolume :: real
  volumeRatio :: real
  increasing :: bool
  aboveAverage :: bool

definition analyzeVolume :: "candle list \<Rightarrow> nat \<Rightarrow> volume_analysis" where
  "analyzeVolume candles period =
     (let volumes = map (\<lambda>c. case c_v c of None \<Rightarrow> 0 | Some x \<Rightarrow> x) candles in
      if length candles < period then
        \<lparr>currentVolume = (if volumes = [] then 0 else last volumes), avgVolume = 0,
         volumeRatio = 0, increasing = False, aboveAverage = False\<rparr>
      else
        (let cur = (if volumes = [] then 0 else last volumes);
             recentVolumes = (if period = 0 then volumes
                              else drop (length volumes - period) volumes);
             avg = sum_list recentVolumes / real period;
             ratio = (if avg > 0 then cur / avg else 0);
             lastThree = drop (length volumes - 3) volumes;
             inc = (length lastThree = 3 \<and> lastThree ! 2 > lastThree ! 1
                    \<and> lastThree ! 1 > lastThree ! 0)
         in \<lparr>currentVolume = cur, avgVolume = avg, volumeRatio = ratio, increasing = inc,
             aboveAverage = (ratio > 1.2)\<rparr>))"

record indicator_reading =
  i_signal :: string
  strength :: real
  condition :: string
  description :: "string option"

definition interpretRSI :: "real option \<Rightarrow> indicator_reading" where
  "interpretRSI rsiValue =
     (case rsiValue of
        None \<Rightarrow> \<lparr>i_signal = ''neutral'', strength = 0, condition = ''calculating'',
                 description = None\<rparr>
      | Some v \<Rightarrow>
          if v > 70 then
            \<lparr>i_signal = ''sell'', strength = min ((v - 70) / 30) 1, condition = ''overbought'',
             description = Some (''RSI at '' @ toFixed 1 v @ '' - Overbought'')\<rparr>
          else if v < 30 then
            \<lparr>i_signal = ''buy'', strength = min ((30 - v) / 30) 1, condition = ''oversold'',
             description = Some (''RSI at '' @ toFixed 1 v @ '' - Oversold'')\<rparr>
          else if v > 60 then
            \<lparr>i_signal = ''sell'', strength = 0.3, condition = ''strong'',
             description = Some (''RSI at '' @ toFixed 1 v @ '' - Bullish but strong'')\<rparr>
          else if v < 40 then
            \<lparr>i_signal = ''buy'', strength = 0.3, condition = ''weak'',
             description = Some (''RSI at '' @ toFixed 1 v @ '' - Bearish but weak'')\<rparr>
          else
            \<lparr>i_signal = ''neutral'', strength = 0, condition = ''neutral'',
             description = Some (''RSI at '' @ toFixed 1 v @ '' - Neutral'')\<rparr>)"

text \<open>
  In \<open>interpretMACD\<close> the previous histogram value may be \<open>null\<close>, which the comparisons
  \<open>prevHistogram <= 0\<close> and \<open>prevHistogram >= 0\<close> read as 0.
\<close>

definition interpretMACD ::
  "real option \<Rightarrow> real option \<Rightarrow> real option \<Rightarrow> real option \<Rightarrow> indicator_reading" where
  "interpretMACD macdValue signalValue histValue prevHistogram =
     (case (macdValue, signalValue, histValue) of
        (Some m, Some s, Some h) \<Rightarrow>
          (let prev = (case prevHistogram of None \<Rightarrow> 0 | Some x \<Rightarrow> x) in
           if h > 0 \<and> prev \<le> 0 then
             \<lparr>i_signal = ''buy'', strength = 0.8, condition = ''bullish_crossover'',
              description = Some ''MACD crossed above signal - Bullish''\<rparr>
           else if h < 0 \<and> prev \<ge> 0 then
             \<lparr>i_signal = ''sell'', strength = 0.8, condition = ''bearish_crossover'',
              description = Some ''MACD crossed below signal - Bearish''\<rparr>
           else if h > 0 then
             \<lparr>i_signal = ''buy'', strength = min (\<bar>h\<bar> / 100) 0.5, condition = ''bullish'',
              description = Some ''MACD above signal - Bullish momentum''\<rparr>
           else if h < 0 then
             \<lparr>i_signal = ''sell'', strength = min (\<bar>h\<bar> / 100) 0.5, condition = ''bearish'',
              description = Some ''MACD below signal - Bearish momentum''\<rparr>
           else
             \<lparr>i_signal = ''neutral'', strength = 0, condition = ''neutral'',
              description = Some ''MACD neutral''\<rparr>)
      | _ \<Rightarrow> \<lparr>i_signal = ''neutral'', strength = 0, condition = ''calculating'',
              description = None\<rparr>)"

definition interpretBollingerBands ::
  "real \<Rightarrow> real option \<Rightarrow> real option \<Rightarrow> real option \<Rightarrow> indicator_reading" where
  "interpretBollingerBands currentPx up mid low =
     (case (up, mid, low) of
        (Some u, Some m, Some l) \<Rightarrow>
          (let bandwidth = u - l;
               percentB = js_divide (currentPx - l) bandwidth
           in if js_le percentB 0.1 then
                \<lparr>i_signal = ''buy'', strength = 0.7, condition = ''oversold'',
                 description = Some ''Price at lower Bollinger Band - Oversold''\<rparr>
              else if js_ge percentB 0.9 then
                \<lparr>i_signal = ''sell'', strength = 0.7, condition = ''overbought'',
                 description = Some ''Price at upper Bollinger Band - Overbought''\<rparr>
              else if js_ge percentB 0.4 \<and> js_le percentB 0.6 then
                \<lparr>i_signal = ''neutral'', strength = 0, condition = ''neutral'',
                 description = Some ''Price at middle Bollinger Band''\<rparr>
              else
                \<lparr>i_signal = (if js_gt percentB 0.5 then ''sell'' else ''buy''), strength = 0.3,
                 condition = ''normal'',
                 description = Some (''Price at '' @ percentToFixed 0 percentB
                                     @ ''% of Bollinger Bands'')\<rparr>)
      | _ \<Rightarrow> \<lparr>i_signal = ''neutral'', strength = 0, condition = ''calculating'',
              description = None\<rparr>)"

section \<open>Signal composer (signal composer module)\<close>

text \<open>
  The configuration after destructuring: a caller that leaves a field out gets the default
  of \<open>composeDefaults\<close>. The indicator functions are modelled for positive periods.
\<close>

record compose_config =
  useSMA :: bool
  useRSI :: bool
  useMACD :: bool
  useBollingerBands :: bool
  useVolume :: bool
  rsiPeriod :: nat
  macdFast :: nat
  macdSlow :: nat
  macdSignal :: nat
  bbPeriod :: nat
  bbStdDev :: real

definition composeDefaults :: compose_config where
  "composeDefaults =
     \<lparr>useSMA = True, useRSI = True, useMACD = True, useBollingerBands = True,
      useVolume = True, rsiPeriod = 14, macdFast = 12, macdSlow = 26, macdSignal = 9,
      bbPeriod = 20, bbStdDev = 2\<rparr>"

record weighted_signal =
  ws_signal :: string
  weight :: real
  source :: string

text \<open>
  The votes of \<open>composeSignal\<close>, in the order the code pushes them: each enabled indicator
  pushes at most one vote (moving-average crossover, RSI, MACD, Bollinger bands), and the
  volume confirmation then adds to the votes already cast.
\<close>

definition smaVote :: "compose_config \<Rightarrow> real list \<Rightarrow> weighted_signal list" where
  "smaVote config closes =
     (if useSMA config then
        (let smaResult = lastSmaSignal closes 12 26 in
         if sm_signal smaResult = ''buy''
         then [\<lparr>ws_signal = ''buy'', weight = 1.0, source = ''SMA''\<rparr>]
         else if sm_signal smaResult = ''sell''
         then [\<lparr>ws_signal = ''sell'', weight = 1.0, source = ''SMA''\<rparr>]
         else [])
      else [])"

definition rsiVote :: "compose_config \<Rightarrow> real list \<Rightarrow> weighted_signal list" where
  "rsiVote config closes =
     (if useRSI config then
        (let rsiValues = rsi closes (rsiPeriod config);
             currentRSI = lastValue rsiValues;
             rsiInterpretation = interpretRSI currentRSI
         in if i_signal rsiInterpretation \<noteq> ''neutral''
            then [\<lparr>ws_signal = i_signal rsiInterpretation,
                   weight = 0.9 * strength rsiInterpretation, source = ''RSI''\<rparr>]
            else [])
      else [])"

definition macdVote :: "compose_config \<Rightarrow> real list \<Rightarrow> weighted_signal list" where
  "macdVote config closes =
     (if useMACD config then
        (let macdResult = macd closes (macdFast config) (macdSlow config) (macdSignal config);
             prevHistogram = secondLastValue (histogram macdResult);
             macdInterpretation =
               interpretMACD (lastValue (macdLine macdResult))
                 (lastValue (signalLine macdResult)) (lastValue (histogram macdResult))
                 prevHistogram
         in if i_signal macdInterpretation \<noteq> ''neutral''
            then [\<lparr>ws_signal = i_signal macdInterpretation,
                   weight = 1.0 * strength macdInterpretation, source = ''MACD''\<rparr>]
            else [])
      else [])"

definition bbVote :: "compose_config \<Rightarrow> real list \<Rightarrow> real \<Rightarrow> weighted_signal list" where
  "bbVote config closes currentPx =
     (if useBollingerBands config then
        (let bb = bollingerBands closes (bbPeriod config) (bbStdDev config);
             bbInterpretation =
               interpretBollingerBands currentPx (lastValue (upper bb))
                 (lastValue (middle bb)) (lastValue (lower bb))
         in if i_signal bbInterpretation \<noteq> ''neutral''
            then [\<lparr>ws_signal = i_signal bbInterpretation,
                   weight = 0.8 * strength bbInterpretation, source = ''BB''\<rparr>]
            else [])
      else [])"

definition volumeVotes ::
  "compose_config \<Rightarrow> candle list \<Rightarrow> weighted_signal list \<Rightarrow> weighted_signal list" where
  "volumeVotes config candles votes =
     (if useVolume config \<and> aboveAverage (analyzeVolume candles 20) then
        (let votes' =
               (if length (filter (\<lambda>s. ws_signal s = ''buy'') votes) > 0
                then votes @ [\<lparr>ws_signal = ''buy'', weight = 0.5, source = ''Volume''\<rparr>]
                else votes)
         in if length (filter (\<lambda>s. ws_signal s = ''sell'') votes') > 0
            then votes' @ [\<lparr>ws_signal = ''sell'', weight = 0.5, source = ''Volume''\<rparr>]
            else votes')
      else votes)"

definition collectSignals :: "compose_config \<Rightarrow> candle list \<Rightarrow> weighted_signal list" where
  "collectSignals config candles =
     (let closes = map c_close candles;
          currentPx = last closes
      in volumeVotes config candles
           (smaVote config closes @ rsiVote config closes @ macdVote config closes
            @ bbVote config closes currentPx))"

text \<open>The weighted vote: the buy and the sell accumulator.\<close>

fun weightedVote :: "real \<times> real \<Rightarrow> weighted_signal list \<Rightarrow> real \<times> real" where
  "weightedVote scores [] = scores"
| "weightedVote (buyScore, sellScore) (s # rest) =
     (if ws_signal s = ''buy'' then weightedVote (buyScore + weight s, sellScore) rest
      else if ws_signal s = ''sell'' then weightedVote (buyScore, sellScore + weight s) rest
      else weightedVote (buyScore, sellScore) rest)"

text \<open>\<open>xs.join(', ')\<close>.\<close>

fun joinComma :: "string list \<Rightarrow> string" where
  "joinComma [] = []"
| "joinComma [x] = x"
| "joinComma (x # y # rest) = x @ '', '' @ joinComma (y # rest)"

record compose_result =
  signal :: string
  confidence :: int
  buyScore :: "string option"
  sellScore :: "string option"
  cr_reason :: string
  indicators :: "string list"
  signals :: "(string \<times> string \<times> string) list"
  cr_price :: "real option"
  timestamp :: "int option"

text \<open>
  Of the report \<open>indicators\<close> the model keeps the names of the indicators reported; of each
  vote in \<open>signals\<close> its source, its signal and its weight printed with two decimals.
\<close>

definition composeSignal :: "int \<Rightarrow> compose_config \<Rightarrow> candle list \<Rightarrow> compose_result" where
  "composeSignal now config candles =
     (if length candles < 100 then
        \<lparr>signal = ''hold'', confidence = 0, buyScore = None, sellScore = None,
         cr_reason = ''Insufficient data for analysis'', indicators = [], signals = [],
         cr_price = None, timestamp = None\<rparr>
      else
        (let votes = collectSignals config candles;
             (buy, sell) = weightedVote (0, 0) votes;
             totalWeight = buy + sell;
             (finalSignal, conf) =
               (if totalWeight = 0 then (''hold'', 0)
                else if buy > sell then (''buy'', buy / totalWeight)
                else if sell > buy then (''sell'', sell / totalWeight)
                else (''hold'', 0));
             buySignals = filter (\<lambda>s. ws_signal s = ''buy'') votes;
             sellSignals = filter (\<lambda>s. ws_signal s = ''sell'') votes;
             why =
               (if finalSignal = ''buy''
                then show_nat (length buySignals) @ '' bullish indicators: ''
                     @ joinComma (map source buySignals)
                else if finalSignal = ''sell''
                then show_nat (length sellSignals) @ '' bearish indicators: ''
                     @ joinComma (map source sellSignals)
                else ''Mixed signals, no clear direction'')
         in \<lparr>signal = finalSignal, confidence = Math_round (conf * 100),
             buyScore = Some (toFixed 2 buy), sellScore = Some (toFixed 2 sell),
             cr_reason = why,
             indicators =
               (if useSMA config then [''sma''] else [])
               @ (if useRSI config then [''rsi''] else [])
               @ (if useMACD config then [''macd''] else [])
               @ (if useBollingerBands config then [''bollingerBands''] else [])
               @ (if useVolume config then [''volume''] else []),
             signals = map (\<lambda>s. (source s, ws_signal s, toFixed 2 (weight s))) votes,
             cr_price = Some (last (map c_close candles)), timestamp = Some now\<rparr>))"

definition isSignalStrong :: "compose_result \<Rightarrow> int \<Rightarrow> bool" where
  "isSignalStrong composedSignal minConfidence =
     (signal composedSignal \<noteq> ''hold'' \<and> confidence composedSignal \<ge> minConfidence)"

text \<open>
  A window of \<open>n\<close> one-minute candles whose price starts at \<open>px\<close> and moves by \<open>d\<close> from
  each candle to the next, and the composer configuration that enables the RSI only, or
  nothing.
\<close>

fun rampCandles :: "nat \<Rightarrow> int \<Rightarrow> real \<Rightarrow> real \<Rightarrow> candle list" where
  "rampCandles 0 t px d = []"
| "rampCandles (Suc n) t px d =
     \<lparr>c_time = t, c_open = px, c_high = px, c_low = px, c_close = px, c_volume = 1,
      c_v = None\<rparr> # rampCandles n (t + 60000) (px + d) d"

definition rsiOnly :: compose_config where
  "rsiOnly = composeDefaults\<lparr>useSMA := False, useMACD := False, useBollingerBands := False,
                            useVolume := False\<rparr>"

definition noIndicators :: compose_config where
  "noIndicators = rsiOnly\<lparr>useRSI := False\<rparr>"

section \<open>Market regime classifier (market regime module)\<close>

text \<open>A thrown exception is the value \<open>Inl\<close> of its message.\<close>

type_synonym thrown = string

record trend_analysis =
  trending :: bool
  direction :: string
  ta_strength :: int
  emaSeparation :: string

record volatility_analysis =
  high :: bool
  va_score :: real
  atrPercent :: string

record range_analysis =
  ranging :: bool
  ra_score :: real
  oscillations :: nat

text \<open>
  The three analyses that \<open>detectMarketRegime\<close> calls once the window is long enough are
  parameters of the model, each free to throw; of their results the model keeps the fields
  that the classification reads.
\<close>

record regime_analyses =
  analyzeTrend :: "real list \<Rightarrow> thrown + trend_analysis"
  analyzeVolatility :: "candle list \<Rightarrow> thrown + volatility_analysis"
  analyzeRange :: "real list \<Rightarrow> thrown + range_analysis"

definition REGIME_STRATEGIES :: "string \<Rightarrow> string" where
  "REGIME_STRATEGIES r =
     (if r = ''trending-up'' then ''momentum''
      else if r = ''trending-down'' then ''momentum''
      else if r = ''ranging'' then ''mean-reversion''
      else if r = ''volatile'' then ''grid-trading''
      else ''hold'')"

record regime_result =
  regime :: string
  rg_confidence :: int
  rg_reason :: string
  recommendedStrategy :: string
  rg_trend :: "trend_analysis option"
  rg_volatility :: "volatility_analysis option"
  rg_range :: "range_analysis option"
  rg_currentPrice :: "real option"
  rg_timestamp :: "int option"

definition detectMarketRegime ::
  "regime_analyses \<Rightarrow> int \<Rightarrow> candle list \<Rightarrow> thrown + regime_result" where
  "detectMarketRegime analyses now candles =
     (if length candles < 100 then
        Inr \<lparr>regime = ''choppy'', rg_confidence = 0,
             rg_reason = ''Insufficient data for regime detection'',
             recommendedStrategy = ''hold'', rg_trend = None, rg_volatility = None,
             rg_range = None, rg_currentPrice = None, rg_timestamp = None\<rparr>
      else
        (let closes = map c_close candles;
             currentPx = last closes
         in case analyzeTrend analyses closes of
              Inl e \<Rightarrow> Inl e
            | Inr trendAnalysis \<Rightarrow>
           (case analyzeVolatility analyses candles of
              Inl e \<Rightarrow> Inl e
            | Inr volatilityAnalysis \<Rightarrow>
           (case analyzeRange analyses closes of
              Inl e \<Rightarrow> Inl e
            | Inr rangeAnalysis \<Rightarrow>
           (let trendRegime = (if direction trendAnalysis = ''up'' then ''trending-up''
                               else ''trending-down'');
                (reg, conf, why) =
                  (if trending trendAnalysis \<and> ta_strength trendAnalysis > 70 then
                     (trendRegime, real_of_int (ta_strength trendAnalysis),
                      ''Strong '' @ direction trendAnalysis @ ''trend: ''
                      @ show_int (ta_strength trendAnalysis) @ ''% strength, ''
                      @ emaSeparation trendAnalysis @ ''% EMA separation'')
                   else if high volatilityAnalysis \<and> ranging rangeAnalysis then
                     (''volatile'',
                      real_of_int (Math_round ((va_score volatilityAnalysis * 0.6
                                                + ra_score rangeAnalysis * 0.4) * 100)),
                      ''High volatility ranging: '' @ atrPercent volatilityAnalysis
                      @ ''% ATR, '' @ show_nat (oscillations rangeAnalysis) @ '' price swings'')
                   else if ranging rangeAnalysis \<and> \<not> high volatilityAnalysis then
                     (''ranging'', ra_score rangeAnalysis * 100,
                      ''Ranging market: '' @ show_nat (oscillations rangeAnalysis)
                      @ '' oscillations, '' @ atrPercent volatilityAnalysis @ ''% volatility'')
                   else if trending trendAnalysis \<and> ta_strength trendAnalysis > 50 then
                     (trendRegime, real_of_int (ta_strength trendAnalysis),
                      ''Moderate '' @ direction trendAnalysis @ ''trend: ''
                      @ show_int (ta_strength trendAnalysis) @ ''% strength'')
                   else
                     (''choppy'', 30,
                      ''Choppy market: No clear trend (''
                      @ show_int (ta_strength trendAnalysis) @ ''%), low volatility (''
                      @ atrPercent volatilityAnalysis @ ''%)''))
            in Inr \<lparr>regime = reg, rg_confidence = Math_round conf, rg_reason = why,
                    recommendedStrategy = REGIME_STRATEGIES reg,
                    rg_trend = Some trendAnalysis, rg_volatility = Some volatilityAnalysis,
                    rg_range = Some rangeAnalysis, rg_currentPrice = Some currentPx,
                    rg_timestamp = Some now\<rparr>)))))"

section \<open>Strategy selector (strategy manager)\<close>

text \<open>
  The module state of the strategy manager, its configuration (a field left out is
  \<^term>\<open>None\<close> and takes the default of \<open>STRATEGY_MANAGER_CONFIG\<close>), and the four strategy
  analysers of the strategy family, which are parameters of the model and may throw. The
  regime is detected anew when none is stored or the stored one is older than the check
  interval; an empty \<open>forceStrategy\<close> counts as none.
\<close>

record manager_state =
  currentRegime :: "regime_result option"
  lastRegimeCheck :: int

definition managerState0 :: manager_state where
  "managerState0 = \<lparr>currentRegime = None, lastRegimeCheck = 0\<rparr>"

record manager_config =
  autoSwitch :: "bool option"
  forceStrategy :: "string option"

record strategy_output =
  so_signal :: string
  so_confidence :: real
  so_reason :: string
  so_strategy :: string

record strategy_family =
  analyzeMeanReversion :: "candle list \<Rightarrow> manager_config \<Rightarrow> thrown + strategy_output"
  analyzeMomentum :: "candle list \<Rightarrow> manager_config \<Rightarrow> thrown + strategy_output"
  analyzeGridTrading :: "candle list \<Rightarrow> manager_config \<Rightarrow> thrown + strategy_output"
  analyzeDayTrading :: "candle list \<Rightarrow> manager_config \<Rightarrow> thrown + strategy_output"

record strategy_signal =
  es_signal :: string
  es_confidence :: real
  es_reason :: string
  strategy :: string
  es_regime :: "regime_result option"
  strategyUsed :: "string option"
  regimeConfidence :: "int option"
  autoSwitched :: "bool option"

definition REGIME_CHECK_INTERVAL :: int where
  "REGIME_CHECK_INTERVAL = 300000"

definition minRegimeConfidence :: int where
  "minRegimeConfidence = 60"

definition analyzeWithOptimalStrategy ::
  "strategy_family \<Rightarrow> regime_analyses \<Rightarrow> int \<Rightarrow> manager_state \<Rightarrow> candle list
   \<Rightarrow> manager_config \<Rightarrow> manager_state \<times> (thrown + strategy_signal)" where
  "analyzeWithOptimalStrategy family analyses now st candles config =
     (let auto = (case autoSwitch config of None \<Rightarrow> True | Some b \<Rightarrow> b);
          forced = forceStrategy config
      in if length candles < 100 then
           (st, Inr \<lparr>es_signal = ''hold'', es_confidence = 0,
                     es_reason = ''Insufficient data for strategy analysis'',
                     strategy = ''none'', es_regime = None, strategyUsed = None,
                     regimeConfidence = None, autoSwitched = None\<rparr>)
         else
           (let fresh =
                  (case detectMarketRegime analyses now candles of
                     Inl e \<Rightarrow> Inl e
                   | Inr newRegime \<Rightarrow>
                       Inr (st\<lparr>currentRegime := Some newRegime, lastRegimeCheck := now\<rparr>,
                            newRegime));
                checked =
                  (case currentRegime st of
                     None \<Rightarrow> fresh
                   | Some r \<Rightarrow>
                       if now - lastRegimeCheck st > REGIME_CHECK_INTERVAL then fresh
                       else Inr (st, r))
            in case checked of
                 Inl e \<Rightarrow> (st, Inl e)
               | Inr (st', reg) \<Rightarrow>
                   (let unforced =
                          (if \<not> auto then ''multi-indicator''
                           else if rg_confidence reg < minRegimeConfidence
                           then ''multi-indicator''
                           else recommendedStrategy reg);
                        selectedStrategy =
                          (case forced of
                             None \<Rightarrow> unforced
                           | Some f \<Rightarrow> if f = [] then unforced else f);
                        signalResult =
                          (if selectedStrategy = ''mean-reversion''
                           then analyzeMeanReversion family candles config
                           else if selectedStrategy = ''momentum''
                           then analyzeMomentum family candles config
                           else if selectedStrategy = ''grid-trading''
                           then analyzeGridTrading family candles config
                           else if selectedStrategy = ''day-trading''
                           then analyzeDayTrading family candles config
                           else
                             (let c = composeSignal now composeDefaults candles in
                              Inr \<lparr>so_signal = signal c,
                                   so_confidence = real_of_int (confidence c),
                                   so_reason = cr_reason c,
                                   so_strategy = ''multi-indicator''\<rparr>))
                    in case signalResult of
                         Inl e \<Rightarrow> (st', Inl e)
                       | Inr s \<Rightarrow>
                           (st',
                            Inr \<lparr>es_signal = so_signal s, es_confidence = so_confidence s,
                                 es_reason = so_reason s, strategy = so_strategy s,
                                 es_regime = Some reg, strategyUsed = Some selectedStrategy,
                                 regimeConfidence = Some (rg_confidence reg),
                                 autoSwitched =
                                   Some (auto \<and> selectedStrategy = recommendedStrategy reg)\<rparr>))))"

text \<open>Analyses and strategies that throw whenever they are called.\<close>

definition throwingAnalyses :: regime_analyses where
  "throwingAnalyses =
     \<lparr>analyzeTrend = (\<lambda>closes. Inl ''TypeError''),
      analyzeVolatility = (\<lambda>candles. Inl ''TypeError''),
      analyzeRange = (\<lambda>closes. Inl ''TypeError'')\<rparr>"

definition throwingFamily :: strategy_family where
  "throwingFamily =
     \<lparr>analyzeMeanReversion = (\<lambda>candles config. Inl ''TypeError''),
      analyzeMomentum = (\<lambda>candles config. Inl ''TypeError''),
      analyzeGridTrading = (\<lambda>candles config. Inl ''TypeError''),
      analyzeDayTrading = (\<lambda>candles config. Inl ''TypeError'')\<rparr>"

section \<open>Backtest replay engine (backtester, with the profit assessment of indicators.mjs)\<close>

text \<open>
  The thresholds of \<open>assessProfitOpportunity\<close> after destructuring; an empty object gives
  \<open>defaultThresholds\<close>.
\<close>

record thresholds =
  momentumThreshold :: real
  smaDiffThreshold :: real
  pricePositionPercent :: real

definition defaultThresholds :: thresholds where
  "defaultThresholds =
     \<lparr>momentumThreshold = 0.8, smaDiffThreshold = 0.25, pricePositionPercent = 0.05\<rparr>"

record profit_assessment =
  profitOpportunity :: bool
  pa_reason :: string
  expectedProfit :: string
  riskReward :: string

text \<open>
  In the comparisons a \<open>null\<close> momentum reads as 0, and \<open>x || 1\<close> and \<open>a && b\<close> take a
  \<open>null\<close> or a 0 as false. The backtest calls this function on at least 50 closes, where the
  last momentum is a number.
\<close>

definition assessProfitOpportunity ::
  "real list \<Rightarrow> nat \<Rightarrow> nat \<Rightarrow> thresholds \<Rightarrow> profit_assessment" where
  "assessProfitOpportunity closes shortN longN th =
     (let currentPx = last closes;
          currentMomentum = (case lastValue (momentum closes 14) of None \<Rightarrow> 0 | Some m \<Rightarrow> m);
          currentVol = lastValue (volatility closes 20);
          avgPrice = sum_list (drop (length closes - 20) closes) / 20;
          smaDiff =
            (case (lastValue (sma closes shortN), lastValue (sma closes longN)) of
               (Some shortSMA, Some longSMA) \<Rightarrow>
                 if shortSMA \<noteq> 0 \<and> longSMA \<noteq> 0
                 then ((shortSMA - longSMA) / longSMA) * 100 else 0
             | _ \<Rightarrow> 0);
          volOr1 = (case currentVol of None \<Rightarrow> 1 | Some v \<Rightarrow> if v = 0 then 1 else v)
      in if currentMomentum > momentumThreshold th \<and> smaDiff > smaDiffThreshold th
            \<and> currentPx < avgPrice * (1 + pricePositionPercent th) then
           (let expected = ((avgPrice * 1.03 - currentPx) / currentPx) * 100 in
            \<lparr>profitOpportunity = True,
             pa_reason = ''BUY: +'' @ toFixed 2 currentMomentum @ ''% momentum, ''
                         @ toFixed 2 smaDiff @ ''% SMA advantage'',
             expectedProfit = toFixed 2 expected,
             riskReward = toFixed 2 (expected / volOr1)\<rparr>)
         else if currentMomentum < - momentumThreshold th \<and> smaDiff < - smaDiffThreshold th
                 \<and> currentPx > avgPrice * (1 - pricePositionPercent th) then
           (let expected = ((currentPx - avgPrice * 0.97) / currentPx) * 100 in
            \<lparr>profitOpportunity = True,
             pa_reason = ''SELL: '' @ toFixed 2 currentMomentum @ ''% momentum, ''
                         @ toFixed 2 smaDiff @ ''% SMA disadvantage'',
             expectedProfit = toFixed 2 expected,
             riskReward = toFixed 2 (expected / volOr1)\<rparr>)
         else
           \<lparr>profitOpportunity = False, pa_reason = [], expectedProfit = toFixed 2 0,
            riskReward = toFixed 2 0\<rparr>)"

definition getMomentumSignal :: "real list \<Rightarrow> string" where
  "getMomentumSignal closes =
     (if length closes < 20 then ''hold''
      else (case lastValue (momentum closes 14) of
              None \<Rightarrow> ''hold''
            | Some lastMom \<Rightarrow>
                if lastMom > 0.5 then ''buy'' else if lastMom < - 0.5 then ''sell''
                else ''hold''))"

definition getSmaCrossoverSignal :: "real list \<Rightarrow> string" where
  "getSmaCrossoverSignal closes =
     (if length closes < 50 then ''hold'' else sm_signal (lastSmaSignal closes 12 26))"

definition getMeanReversionSignal :: "real list \<Rightarrow> string" where
  "getMeanReversionSignal closes =
     (if length closes < 50 then ''hold''
      else
        (let period = 20;
             lastIndex = length closes - 1;
             smaValues = take period (drop (lastIndex + 1 - period) closes);
             mean = sum_list smaValues / real period;
             variance = sum_list (map (\<lambda>v. (v - mean)\<^sup>2) smaValues) / real period;
             stdDev = sqrt variance;
             currentPx = closes ! lastIndex;
             zScore = (currentPx - mean) / stdDev
         in if zScore < - 2.0 then ''buy''
            else if currentPx > mean \<and> zScore > 0 then ''sell''
            else ''hold''))"

definition getMultiIndicatorSignal :: "real list \<Rightarrow> candle list \<Rightarrow> thresholds \<Rightarrow> string" where
  "getMultiIndicatorSignal closes candles th =
     (if length closes < 50 then ''hold''
      else
        (let smaSignal = getSmaCrossoverSignal closes;
             momentumSignal = getMomentumSignal closes;
             assessment = assessProfitOpportunity closes 12 26 th
         in if (smaSignal = ''buy'' \<or> momentumSignal = ''buy'') \<and> profitOpportunity assessment
            then ''buy''
            else if smaSignal = ''sell'' \<or> momentumSignal = ''sell'' then ''sell''
            else ''hold''))"

definition getStrategySignal :: "string \<Rightarrow> real list \<Rightarrow> candle list \<Rightarrow> string" where
  "getStrategySignal strat closes candles =
     (if strat = ''momentum'' then getMomentumSignal closes
      else if strat = ''sma-crossover'' then getSmaCrossoverSignal closes
      else if strat = ''mean-reversion'' then getMeanReversionSignal closes
      else if strat = ''multi-indicator''
      then getMultiIndicatorSignal closes candles defaultThresholds
      else if strat = ''multi-indicator-conservative''
      then getMultiIndicatorSignal closes candles
             \<lparr>momentumThreshold = 1.5, smaDiffThreshold = 0.5, pricePositionPercent = 0.02\<rparr>
      else if strat = ''multi-indicator-optimized''
      then getMultiIndicatorSignal closes candles
             \<lparr>momentumThreshold = 0.8, smaDiffThreshold = 0.25, pricePositionPercent = 0.05\<rparr>
      else ''hold'')"

text \<open>The configuration of a backtest; a field left out is \<^term>\<open>None\<close>.\<close>

record backtest_config =
  bc_symbol :: "string option"
  bc_strategy :: "string option"
  bc_startDate :: "int option"
  bc_endDate :: "int option"
  bc_initialCapital :: "real option"
  bc_positionSize :: "real option"
  bc_feeRate :: "real option"
  bc_slippage :: "real option"
  bc_interval :: "string option"

text \<open>
  The configuration with the defaults filled in, as the run reports it. The run reads the
  clock at up to three places: \<open>clock 0\<close> for the default start date, \<open>clock 1\<close> for the
  default end date, and \<open>clock 2\<close> for the time of generation.
\<close>

record run_config =
  rn_symbol :: string
  rn_strategy :: string
  startDate :: int
  endDate :: int
  initialCapital :: real
  rn_positionSize :: real
  feeRate :: real
  slippage :: real
  rn_interval :: string

definition resolveConfig :: "(nat \<Rightarrow> int) \<Rightarrow> backtest_config \<Rightarrow> run_config" where
  "resolveConfig clock config =
     \<lparr>rn_symbol = (case bc_symbol config of None \<Rightarrow> ''BTCUSD'' | Some x \<Rightarrow> x),
      rn_strategy = (case bc_strategy config of None \<Rightarrow> ''momentum'' | Some x \<Rightarrow> x),
      startDate = (case bc_startDate config of
                     None \<Rightarrow> clock 0 - (90 * 24 * 60 * 60 * 1000) | Some x \<Rightarrow> x),
      endDate = (case bc_endDate config of None \<Rightarrow> clock 1 | Some x \<Rightarrow> x),
      initialCapital = (case bc_initialCapital config of None \<Rightarrow> 10000 | Some x \<Rightarrow> x),
      rn_positionSize = (case bc_positionSize config of None \<Rightarrow> 1000 | Some x \<Rightarrow> x),
      feeRate = (case bc_feeRate config of None \<Rightarrow> 0.0026 | Some x \<Rightarrow> x),
      slippage = (case bc_slippage config of None \<Rightarrow> 0.001 | Some x \<Rightarrow> x),
      rn_interval = (case bc_interval config of None \<Rightarrow> ''1h'' | Some x \<Rightarrow> x)\<rparr>"

record sim_position =
  sp_side :: string
  entry_price :: real
  sp_amount :: real
  sp_quantity :: real
  entry_time :: int
  entry_index :: nat
  sp_fee :: real

record sim_trade =
  tr_id :: nat
  tr_symbol :: string
  tr_strategy :: string
  tr_side :: string
  tr_entry_price :: real
  exit_price :: real
  tr_quantity :: real
  tr_amount :: real
  tr_entry_time :: int
  exit_time :: int
  duration :: int
  tr_pnl :: real
  pnl_percent :: real
  tr_fee :: real
  tr_status :: string
  tr_note :: "string option"

record equity_point =
  ep_time :: int
  ep_capital :: real
  ep_trades :: nat
  lastPnl :: "real option"

record sim_state =
  capital :: real
  openPosition :: "sim_position option"
  tradeList :: "sim_trade list"
  equityPoints :: "equity_point list"

text \<open>Closing the simulated position at a candle: the trade recorded and the new capital.\<close>

definition closeTrade ::
  "run_config \<Rightarrow> sim_state \<Rightarrow> sim_position \<Rightarrow> candle \<Rightarrow> string option \<Rightarrow> sim_trade \<times> real" where
  "closeTrade rc st pos cndl why =
     (let exitPx = c_close cndl * (1 - slippage rc);
          exitValue = sp_quantity pos * exitPx;
          fee = exitValue * feeRate rc;
          profit = exitValue - sp_amount pos - sp_fee pos - fee
      in (\<lparr>tr_id = length (tradeList st) + 1, tr_symbol = rn_symbol rc,
           tr_strategy = rn_strategy rc, tr_side = sp_side pos,
           tr_entry_price = entry_price pos, exit_price = exitPx,
           tr_quantity = sp_quantity pos, tr_amount = sp_amount pos,
           tr_entry_time = entry_time pos, exit_time = c_time cndl,
           duration = c_time cndl - entry_time pos, tr_pnl = profit,
           pnl_percent = (profit / sp_amount pos) * 100, tr_fee = sp_fee pos + fee,
           tr_status = ''closed'', tr_note = why\<rparr>,
          capital st + (exitValue - fee)))"

text \<open>One pass of the loop over the candles, at index \<open>i\<close>.\<close>

definition replayCandle :: "run_config \<Rightarrow> candle list \<Rightarrow> sim_state \<Rightarrow> nat \<Rightarrow> sim_state" where
  "replayCandle rc candles st i =
     (let cndl = candles ! i;
          closesUpToNow = take (i + 1) (map c_close candles);
          sig = getStrategySignal (rn_strategy rc) closesUpToNow (take (i + 1) candles)
      in if sig = ''buy'' \<and> openPosition st = None \<and> capital st \<ge> rn_positionSize rc then
           (let entryPx = c_close cndl * (1 + slippage rc);
                qty = rn_positionSize rc / entryPx;
                fee = rn_positionSize rc * feeRate rc
            in st\<lparr>openPosition :=
                     Some \<lparr>sp_side = ''buy'', entry_price = entryPx,
                           sp_amount = rn_positionSize rc, sp_quantity = qty,
                           entry_time = c_time cndl, entry_index = i, sp_fee = fee\<rparr>,
                   capital := capital st - (rn_positionSize rc + fee)\<rparr>)
         else
           (case openPosition st of
              Some pos \<Rightarrow>
                if sig = ''sell'' \<and> sp_side pos = ''buy'' then
                  (let (trade, cap) = closeTrade rc st pos cndl None in
                   st\<lparr>capital := cap, openPosition := None,
                      tradeList := tradeList st @ [trade],
                      equityPoints := equityPoints st
                        @ [\<lparr>ep_time = c_time cndl, ep_capital = cap,
                            ep_trades = length (tradeList st) + 1,
                            lastPnl = Some (tr_pnl trade)\<rparr>]\<rparr>)
                else st
            | None \<Rightarrow> st))"

text \<open>
  The replay: the loop from index 50 on, then the forced close of a position still open at
  the last candle.
\<close>

definition replay :: "run_config \<Rightarrow> candle list \<Rightarrow> sim_state" where
  "replay rc candles =
     (let st0 = \<lparr>capital = initialCapital rc, openPosition = None, tradeList = [],
                 equityPoints = [\<lparr>ep_time = c_time (candles ! 0),
                                  ep_capital = initialCapital rc, ep_trades = 0,
                                  lastPnl = None\<rparr>]\<rparr>;
          st1 = foldl (replayCandle rc candles) st0 [50..<length candles]
      in case openPosition st1 of
           None \<Rightarrow> st1
         | Some pos \<Rightarrow>
             (let (trade, cap) =
                    closeTrade rc st1 pos (candles ! (length candles - 1))
                      (Some ''Force closed at end of backtest'')
              in st1\<lparr>capital := cap, tradeList := tradeList st1 @ [trade]\<rparr>))"

record run_summary =
  totalTrades :: nat
  totalDays :: int
  tradesPerDay :: real
  sm_initialCapital :: real
  finalCapital :: real
  totalReturn :: real
  totalReturnPercent :: real
  annualizedReturn :: real
  candlesProcessed :: nat

record backtest_run =
  br_config :: run_config
  summary :: run_summary
  bt_trades :: "sim_trade list"
  equityCurve :: "equity_point list"
  generatedAt :: int

text \<open>
  \<open>runBacktest\<close>, given the clock and the candles that the exchange adapter returned
  (\<^term>\<open>None\<close> for \<open>null\<close>). The performance metrics computed from the trade list by the
  analytics module are not part of the model, and \<open>Math.pow\<close> is the real power.
\<close>

definition runBacktest ::
  "(nat \<Rightarrow> int) \<Rightarrow> backtest_config \<Rightarrow> candle list option \<Rightarrow> thrown + backtest_run" where
  "runBacktest clock config fetched =
     (let rc = resolveConfig clock config in
      if rn_positionSize rc > initialCapital rc then
        Inl ''Position size cannot exceed initial capital''
      else
        (case fetched of
           None \<Rightarrow> Inl ''Insufficient historical data for backtesting (need at least 50 candles)''
         | Some candles \<Rightarrow>
             if length candles < 50 then
               Inl ''Insufficient historical data for backtesting (need at least 50 candles)''
             else
               (let final = replay rc candles;
                    days = real_of_int (endDate rc - startDate rc) / (1000 * 60 * 60 * 24);
                    perDay = real (length (tradeList final)) / days;
                    ret = capital final - initialCapital rc;
                    retPercent = (ret / initialCapital rc) * 100;
                    annualized =
                      ((capital final / initialCapital rc) powr (365 / days) - 1) * 100
                in Inr \<lparr>br_config = rc,
                        summary =
                          \<lparr>totalTrades = length (tradeList final),
                           totalDays = Math_round days,
                           tradesPerDay = parseFloat_toFixed 2 perDay,
                           sm_initialCapital = initialCapital rc,
                           finalCapital = parseFloat_toFixed 2 (capital final),
                           totalReturn = parseFloat_toFixed 2 ret,
                           totalReturnPercent = parseFloat_toFixed 2 retPercent,
                           annualizedReturn = parseFloat_toFixed 2 annualized,
                           candlesProcessed = length candles\<rparr>,
                        bt_trades = tradeList final,
                        equityCurve = equityPoints final,
                        generatedAt = clock 2\<rparr>)))"

text \<open>
  Two resolved configurations agree on what the replay reads: everything but the dates.
\<close>

definition sameTrading :: "run_config \<Rightarrow> run_config \<Rightarrow> bool" where
  "sameTrading rc rc' =
     (rn_symbol rc = rn_symbol rc' \<and> rn_strategy rc = rn_strategy rc'
      \<and> initialCapital rc = initialCapital rc' \<and> rn_positionSize rc = rn_positionSize rc'
      \<and> feeRate rc = feeRate rc' \<and> slippage rc = slippage rc')"

section \<open>Stop-loss, take-profit and trailing-stop arithmetic (risk-advanced.mjs)\<close>

text \<open>
  A side is the string \<open>'buy'\<close> (long) or \<open>'sell'\<close> (short); the code tests \<open>side === 'buy'\<close>
  and treats every other value as short.
\<close>

definition calculateStopLoss :: "string \<Rightarrow> real \<Rightarrow> real \<Rightarrow> real" where
  "calculateStopLoss sd entry stopLossPct =
     (if sd = ''buy'' then entry * (1 - stopLossPct / 100) else entry * (1 + stopLossPct / 100))"

definition calculateTakeProfit :: "string \<Rightarrow> real \<Rightarrow> real \<Rightarrow> real" where
  "calculateTakeProfit sd entry takeProfitPct =
     (if sd = ''buy'' then entry * (1 + takeProfitPct / 100)
      else entry * (1 - takeProfitPct / 100))"

record trailing_update =
  newStopLoss :: real
  tu_trailingActivated :: bool
  profitLocked :: real

definition updateTrailingStop ::
  "string \<Rightarrow> real \<Rightarrow> real \<Rightarrow> real \<Rightarrow> real \<Rightarrow> trailing_update" where
  "updateTrailingStop sd cur entry currentStopLoss trailingPercent =
     (let unchanged = \<lparr>newStopLoss = currentStopLoss, tu_trailingActivated = False,
                        profitLocked = 0\<rparr>
      in if sd = ''buy'' then
           (let profitPercent = ((cur - entry) / entry) * 100 in
            if profitPercent > 0 then
              (let trailingStopPrice = cur * (1 - trailingPercent / 100) in
               if trailingStopPrice > currentStopLoss then
                 \<lparr>newStopLoss = trailingStopPrice, tu_trailingActivated = True,
                  profitLocked = ((trailingStopPrice - entry) / entry) * 100\<rparr>
               else unchanged)
            else unchanged)
         else
           (let profitPercent = ((entry - cur) / entry) * 100 in
            if profitPercent > 0 then
              (let trailingStopPrice = cur * (1 + trailingPercent / 100) in
               if trailingStopPrice < currentStopLoss then
                 \<lparr>newStopLoss = trailingStopPrice, tu_trailingActivated = True,
                  profitLocked = ((entry - trailingStopPrice) / entry) * 100\<rparr>
               else unchanged)
            else unchanged))"

definition isStopLossHit :: "string \<Rightarrow> real \<Rightarrow> real \<Rightarrow> bool" where
  "isStopLossHit sd cur stopLoss = (if sd = ''buy'' then cur \<le> stopLoss else cur \<ge> stopLoss)"

definition isTakeProfitHit :: "string \<Rightarrow> real \<Rightarrow> real \<Rightarrow> bool" where
  "isTakeProfitHit sd cur takeProfit =
     (if sd = ''buy'' then cur \<ge> takeProfit else cur \<le> takeProfit)"

record take_profit_level =
  positionPercent :: real
  profitTarget :: real
  price :: real

definition calculateMultipleTakeProfits :: "string \<Rightarrow> real \<Rightarrow> real \<Rightarrow> take_profit_level list" where
  "calculateMultipleTakeProfits sd entry targetPercent =
     map (\<lambda>(percent, target).
            \<lparr>positionPercent = percent, profitTarget = target,
             price = calculateTakeProfit sd entry target\<rparr>)
         [(25, targetPercent * 0.5), (25, targetPercent * 0.75), (25, targetPercent),
          (25, targetPercent * 1.5)]"

record risk_config =
  rc_stopLossPercent :: real
  rc_takeProfitPercent :: real
  rc_trailingStopPercent :: real
  riskPercentOfPortfolio :: real
  useTrailingStop :: bool
  useMultipleTakeProfits :: bool

definition DEFAULT_RISK_CONFIG :: risk_config where
  "DEFAULT_RISK_CONFIG =
     \<lparr>rc_stopLossPercent = 2.0, rc_takeProfitPercent = 5.0, rc_trailingStopPercent = 1.5,
      riskPercentOfPortfolio = 2.0, useTrailingStop = True, useMultipleTakeProfits = True\<rparr>"

section \<open>Position and order lifecycle manager (order manager)\<close>

record entry_trade =
  t_id :: string
  t_symbol :: string
  t_side :: string
  t_price :: real
  t_quantity :: real
  t_notional :: real

record position =
  pos_id :: string
  symbol :: string
  side :: string
  entryPrice :: real
  quantity :: real
  notional :: real
  entryTime :: int
  stopLossPrice :: real
  stopLossPercent :: real
  takeProfitPrice :: real
  takeProfitPercent :: real
  trailingStopEnabled :: bool
  trailingStopPercent :: real
  trailingActivated :: bool
  multipleTakeProfits :: "take_profit_level list"
  takeProfitsHit :: "nat list"
  highestPrice :: real
  lowestPrice :: real
  currentPrice :: real
  unrealizedPnl :: real
  unrealizedPnlPercent :: real
  status :: string
  exitReason :: "string option"
  exitPrice :: "real option"
  exitTime :: "int option"
  realizedPnl :: "real option"
  realizedPnlPercent :: "real option"

text \<open>The module's table \<open>activePositions\<close>, a map from position id to position.\<close>

type_synonym positions = "string \<rightharpoonup> position"

definition createPosition ::
  "int \<Rightarrow> positions \<Rightarrow> entry_trade \<Rightarrow> risk_config \<Rightarrow> positions \<times> position" where
  "createPosition now activePositions trade riskConfig =
     (let p = \<lparr>pos_id = t_id trade, symbol = t_symbol trade, side = t_side trade,
                entryPrice = t_price trade, quantity = t_quantity trade,
                notional = t_notional trade, entryTime = now,
                stopLossPrice =
                  calculateStopLoss (t_side trade) (t_price trade) (rc_stopLossPercent riskConfig),
                stopLossPercent = rc_stopLossPercent riskConfig,
                takeProfitPrice =
                  calculateTakeProfit (t_side trade) (t_price trade)
                    (rc_takeProfitPercent riskConfig),
                takeProfitPercent = rc_takeProfitPercent riskConfig,
                trailingStopEnabled = useTrailingStop riskConfig,
                trailingStopPercent = rc_trailingStopPercent riskConfig,
                trailingActivated = False,
                multipleTakeProfits =
                  (if useMultipleTakeProfits riskConfig
                   then calculateMultipleTakeProfits (t_side trade) (t_price trade)
                          (rc_takeProfitPercent riskConfig)
                   else []),
                takeProfitsHit = [],
                highestPrice = t_price trade, lowestPrice = t_price trade,
                currentPrice = t_price trade, unrealizedPnl = 0, unrealizedPnlPercent = 0,
                status = ''open'', exitReason = None, exitPrice = None, exitTime = None,
                realizedPnl = None, realizedPnlPercent = None\<rparr>
      in (activePositions(t_id trade \<mapsto> p), p))"

record update_result =
  ur_position :: "position option"
  triggered :: bool
  action :: "string option"
  level :: "nat option"
  percentToClose :: "real option"
  ur_exitPrice :: "real option"
  pnl :: "real option"
  pnlPercent :: "real option"

text \<open>
  The loop over the ladder of partial take-profits: the first rung, in order, whose index is
  not yet in \<open>takeProfitsHit\<close> and whose price the current price has reached.
\<close>

fun firstLadderHit ::
  "string \<Rightarrow> real \<Rightarrow> nat list \<Rightarrow> nat \<Rightarrow> take_profit_level list
   \<Rightarrow> (nat \<times> take_profit_level) option" where
  "firstLadderHit sd cur hits index [] = None"
| "firstLadderHit sd cur hits index (tp # tps) =
     (if index \<in> set hits then firstLadderHit sd cur hits (Suc index) tps
      else if isTakeProfitHit sd cur (price tp) then Some (index, tp)
      else firstLadderHit sd cur hits (Suc index) tps)"

text \<open>
  The first part of \<open>updatePosition\<close>: the current price, the watermarks, the unrealized
  profit and loss, and the trailing stop.
\<close>

definition markToMarket :: "position \<Rightarrow> real \<Rightarrow> position" where
  "markToMarket p cur =
     (let p1 = p\<lparr>currentPrice := cur, highestPrice := max (highestPrice p) cur,
                 lowestPrice := min (lowestPrice p) cur\<rparr>;
          p2 = (if side p1 = ''buy''
                then p1\<lparr>unrealizedPnl := (cur - entryPrice p1) * quantity p1,
                        unrealizedPnlPercent := ((cur - entryPrice p1) / entryPrice p1) * 100\<rparr>
                else p1\<lparr>unrealizedPnl := (entryPrice p1 - cur) * quantity p1,
                        unrealizedPnlPercent := ((entryPrice p1 - cur) / entryPrice p1) * 100\<rparr>)
      in if trailingStopEnabled p2 \<and> unrealizedPnlPercent p2 > 0 then
           (let trailingUpdate =
                  updateTrailingStop (side p2) cur (entryPrice p2) (stopLossPrice p2)
                    (trailingStopPercent p2)
            in if tu_trailingActivated trailingUpdate
               then p2\<lparr>stopLossPrice := newStopLoss trailingUpdate, trailingActivated := True\<rparr>
               else p2)
         else p2)"

definition updatePosition :: "positions \<Rightarrow> string \<Rightarrow> real \<Rightarrow> positions \<times> update_result" where
  "updatePosition activePositions positionId cur =
     (case activePositions positionId of
        None \<Rightarrow>
          (activePositions,
           \<lparr>ur_position = None, triggered = False, action = None, level = None,
            percentToClose = None, ur_exitPrice = None, pnl = None, pnlPercent = None\<rparr>)
      | Some p0 \<Rightarrow>
          (let p = markToMarket p0 cur in
           if isStopLossHit (side p) cur (stopLossPrice p) then
             (activePositions(positionId \<mapsto> p),
              \<lparr>ur_position = Some p, triggered = True, action = Some ''stop-loss'',
               level = None, percentToClose = None, ur_exitPrice = Some cur,
               pnl = Some (unrealizedPnl p), pnlPercent = Some (unrealizedPnlPercent p)\<rparr>)
           else if isTakeProfitHit (side p) cur (takeProfitPrice p) then
             (activePositions(positionId \<mapsto> p),
              \<lparr>ur_position = Some p, triggered = True, action = Some ''take-profit'',
               level = None, percentToClose = None, ur_exitPrice = Some cur,
               pnl = Some (unrealizedPnl p), pnlPercent = Some (unrealizedPnlPercent p)\<rparr>)
           else
             (case (if length (multipleTakeProfits p) > 0
                    then firstLadderHit (side p) cur (takeProfitsHit p) 0 (multipleTakeProfits p)
                    else None) of
                Some (index, tp) \<Rightarrow>
                  (let p' = p\<lparr>takeProfitsHit := takeProfitsHit p @ [index]\<rparr> in
                   (activePositions(positionId \<mapsto> p'),
                    \<lparr>ur_position = Some p', triggered = True,
                     action = Some ''partial-take-profit'', level = Some (index + 1),
                     percentToClose = Some (positionPercent tp), ur_exitPrice = Some cur,
                     pnl = Some (unrealizedPnl p * (positionPercent tp / 100)),
                     pnlPercent = Some (unrealizedPnlPercent p)\<rparr>))
              | None \<Rightarrow>
                  (activePositions(positionId \<mapsto> p),
                   \<lparr>ur_position = Some p, triggered = False, action = None, level = None,
                    percentToClose = None, ur_exitPrice = None, pnl = None,
                    pnlPercent = None\<rparr>))))"

definition closePosition ::
  "int \<Rightarrow> positions \<Rightarrow> string \<Rightarrow> real \<Rightarrow> string \<Rightarrow> positions \<times> position option" where
  "closePosition now activePositions positionId exitPx why =
     (case activePositions positionId of
        None \<Rightarrow> (activePositions, None)
      | Some p \<Rightarrow>
          (let p1 = p\<lparr>status := ''closed'', exitPrice := Some exitPx, exitTime := Some now,
                      exitReason := Some why\<rparr>;
               p2 = (if side p1 = ''buy''
                     then p1\<lparr>realizedPnl := Some ((exitPx - entryPrice p1) * quantity p1),
                             realizedPnlPercent :=
                               Some (((exitPx - entryPrice p1) / entryPrice p1) * 100)\<rparr>
                     else p1\<lparr>realizedPnl := Some ((entryPrice p1 - exitPx) * quantity p1),
                             realizedPnlPercent :=
                               Some (((entryPrice p1 - exitPx) / entryPrice p1) * 100)\<rparr>)
           in (activePositions(positionId := None), Some p2)))"

text \<open>A sequence of price updates of one position, each applied to the table the last left.\<close>

fun priceUpdates :: "positions \<Rightarrow> string \<Rightarrow> real list \<Rightarrow> positions" where
  "priceUpdates activePositions positionId [] = activePositions"
| "priceUpdates activePositions positionId (cur # curs) =
     priceUpdates (fst (updatePosition activePositions positionId cur)) positionId curs"

text \<open>A long position opened at 100 under the default risk configuration.\<close>

definition demoLong :: positions where
  "demoLong =
     fst (createPosition 0 Map.empty
            \<lparr>t_id = ''t1'', t_symbol = ''BTCUSD'', t_side = ''buy'', t_price = 100,
             t_quantity = 2, t_notional = 200\<rparr> DEFAULT_RISK_CONFIG)"

definition demoShort :: positions where
  "demoShort =
     fst (createPosition 0 Map.empty
            \<lparr>t_id = ''t2'', t_symbol = ''BTCUSD'', t_side = ''sell'', t_price = 100,
             t_quantity = 2, t_notional = 200\<rparr> DEFAULT_RISK_CONFIG)"

definition demoLongPosition :: position where
  "demoLongPosition =
     snd (createPosition 0 Map.empty
            \<lparr>t_id = ''t1'', t_symbol = ''BTCUSD'', t_side = ''buy'', t_price = 100,
             t_quantity = 2, t_notional = 200\<rparr> DEFAULT_RISK_CONFIG)"

definition demoShortPosition :: position where
  "demoShortPosition =
     snd (createPosition 0 Map.empty
            \<lparr>t_id = ''t2'', t_symbol = ''BTCUSD'', t_side = ''sell'', t_price = 100,
             t_quantity = 2, t_notional = 200\<rparr> DEFAULT_RISK_CONFIG)"

section \<open>Circuit breaker: results\<close>

lemma show_nat_digit: "n < 10 \<Longrightarrow> show_nat n = [digit_char n]"
  by (simp add: show_nat.simps)

text \<open>
  C10. A closed trade with a profit and loss of exactly zero leaves the circuit breaker as it
  was: the counter of consecutive losses is neither incremented nor reset, and the call reports
  that the breaker did not trip.
\<close>

theorem C10_zero_pnl_leaves_breaker_unchanged:
  "fst (updateCircuitBreaker now 0 s) = s \<and> \<not> tripped (snd (updateCircuitBreaker now 0 s))
   \<and> cu_consecutiveLosses (snd (updateCircuitBreaker now 0 s)) = consecutiveLosses s"
  by (simp add: updateCircuitBreaker_def)

text \<open>
  C2. The circuit breaker as a state machine. A losing close adds one to the counter of
  consecutive losses and a winning close sets it to 0. A losing close that brings the counter
  to the threshold trips the breaker and records the trip time. While the breaker is tripped
  and less than the cooldown has passed since the trip, \<open>checkCircuitBreaker\<close> reports
  \<open>halted\<close> with the circuit-breaker reason and changes nothing; once the cooldown has
  passed, it reports not halted and resets the breaker and its counter.
\<close>

theorem C2_circuit_breaker_state_machine:
  "(tradePnL < 0 \<longrightarrow>
      consecutiveLosses (fst (updateCircuitBreaker now tradePnL s)) = consecutiveLosses s + 1)
   \<and> (tradePnL > 0 \<longrightarrow> consecutiveLosses (fst (updateCircuitBreaker now tradePnL s)) = 0)
   \<and> (tradePnL < 0 \<and> consecutiveLosses s + 1 \<ge> maxConsecutiveLosses s \<longrightarrow>
        isTripped (fst (updateCircuitBreaker now tradePnL s))
        \<and> tripTime (fst (updateCircuitBreaker now tradePnL s)) = Some now
        \<and> tripped (snd (updateCircuitBreaker now tradePnL s)))
   \<and> (isTripped s \<and> tripTime s = Some t \<and> now - t < cooldownPeriod s \<longrightarrow>
        halted (snd (checkCircuitBreaker now s))
        \<and> reason (snd (checkCircuitBreaker now s))
            = Some (''Circuit breaker tripped: '' @ show_int (consecutiveLosses s)
                    @ '' consecutive losses'')
        \<and> fst (checkCircuitBreaker now s) = s)
   \<and> (isTripped s \<and> tripTime s = Some t \<and> now - t \<ge> cooldownPeriod s \<longrightarrow>
        \<not> halted (snd (checkCircuitBreaker now s))
        \<and> \<not> isTripped (fst (checkCircuitBreaker now s))
        \<and> consecutiveLosses (fst (checkCircuitBreaker now s)) = 0)"
  by (simp add: updateCircuitBreaker_def checkCircuitBreaker_def timeSinceTrip_def Let_def)

text \<open>
  With the default threshold 3 and cooldown of 60 minutes: a first loss counts 1, a win after
  it counts 0, a third loss in a row at time 3000 trips the breaker, which halts entries one
  millisecond before the hour is over and resets when it is.
\<close>

theorem C2_circuit_breaker_witness:
  "consecutiveLosses (fst (updateCircuitBreaker 1000 (-5) circuitBreakerState0)) = 1
   \<and> consecutiveLosses (fst (updateCircuitBreaker 1500 20
        (circuitBreakerState0\<lparr>consecutiveLosses := 1\<rparr>))) = 0
   \<and> fst (updateCircuitBreaker 3000 (-7) (circuitBreakerState0\<lparr>consecutiveLosses := 2\<rparr>))
       = circuitBreakerState0\<lparr>isTripped := True, tripTime := Some 3000, consecutiveLosses := 3\<rparr>
   \<and> halted (snd (checkCircuitBreaker 3602999
        (circuitBreakerState0\<lparr>isTripped := True, tripTime := Some 3000, consecutiveLosses := 3\<rparr>)))
   \<and> reason (snd (checkCircuitBreaker 3602999
        (circuitBreakerState0\<lparr>isTripped := True, tripTime := Some 3000, consecutiveLosses := 3\<rparr>)))
       = Some ''Circuit breaker tripped: 3 consecutive losses''
   \<and> \<not> halted (snd (checkCircuitBreaker 3603000
        (circuitBreakerState0\<lparr>isTripped := True, tripTime := Some 3000, consecutiveLosses := 3\<rparr>)))
   \<and> consecutiveLosses (fst (checkCircuitBreaker 3603000
        (circuitBreakerState0\<lparr>isTripped := True, tripTime := Some 3000, consecutiveLosses := 3\<rparr>)))
       = 0"
  using C2_circuit_breaker_state_machine [of "-5" 1000 circuitBreakerState0 0]
        C2_circuit_breaker_state_machine
          [of 20 1500 "circuitBreakerState0\<lparr>consecutiveLosses := 1\<rparr>" 0]
        C2_circuit_breaker_state_machine
          [of "-7" 3000 "circuitBreakerState0\<lparr>consecutiveLosses := 2\<rparr>" 0]
        C2_circuit_breaker_state_machine
          [of 0 3602999 "circuitBreakerState0\<lparr>isTripped := True, tripTime := Some 3000,
                          consecutiveLosses := 3\<rparr>" 3000]
        C2_circuit_breaker_state_machine
          [of 0 3603000 "circuitBreakerState0\<lparr>isTripped := True, tripTime := Some 3000,
                          consecutiveLosses := 3\<rparr>" 3000]
  by (simp add: show_int_def show_nat_digit digit_char_def circuitBreakerState0_def
        updateCircuitBreaker_def Let_def)

section \<open>Position manager: results\<close>


lemma markToMarket_side: "side (markToMarket p cur) = side p"
  by (simp add: markToMarket_def Let_def)

lemma markToMarket_fixed:
  "multipleTakeProfits (markToMarket p cur) = multipleTakeProfits p
   \<and> takeProfitsHit (markToMarket p cur) = takeProfitsHit p
   \<and> status (markToMarket p cur) = status p
   \<and> takeProfitPrice (markToMarket p cur) = takeProfitPrice p
   \<and> trailingStopPercent (markToMarket p cur) = trailingStopPercent p"
  by (simp add: markToMarket_def Let_def)

lemma markToMarket_stop_long:
  "side p = ''buy'' \<Longrightarrow> stopLossPrice p \<le> stopLossPrice (markToMarket p cur)"
  by (simp add: markToMarket_def updateTrailingStop_def Let_def)

lemma markToMarket_stop_short:
  "side p \<noteq> ''buy'' \<Longrightarrow> stopLossPrice (markToMarket p cur) \<le> stopLossPrice p"
  by (simp add: markToMarket_def updateTrailingStop_def Let_def)

lemma markToMarket_keep_long:
  "side p = ''buy'' \<Longrightarrow> cur * (1 - trailingStopPercent p / 100) \<le> stopLossPrice p
   \<Longrightarrow> stopLossPrice (markToMarket p cur) = stopLossPrice p"
  by (simp add: markToMarket_def updateTrailingStop_def Let_def)

lemma markToMarket_keep_short:
  "side p \<noteq> ''buy'' \<Longrightarrow> cur * (1 + trailingStopPercent p / 100) \<ge> stopLossPrice p
   \<Longrightarrow> stopLossPrice (markToMarket p cur) = stopLossPrice p"
  by (simp add: markToMarket_def updateTrailingStop_def Let_def)

lemma updatePosition_stored:
  assumes "activePositions positionId = Some p"
  shows "\<exists>q. fst (updatePosition activePositions positionId cur) positionId = Some q
            \<and> side q = side p
            \<and> stopLossPrice q = stopLossPrice (markToMarket p cur)
            \<and> trailingStopPercent q = trailingStopPercent p"
  using assms
  by (simp add: updatePosition_def Let_def markToMarket_side markToMarket_fixed
        split: option.splits prod.splits)

lemma priceUpdates_append:
  "priceUpdates st pid (xs @ ys) = priceUpdates (priceUpdates st pid xs) pid ys"
  by (induction xs arbitrary: st) simp_all

lemma priceUpdates_stop:
  "st pid = Some p \<Longrightarrow>
   \<exists>q. priceUpdates st pid curs pid = Some q \<and> side q = side p
       \<and> (side p = ''buy'' \<longrightarrow> stopLossPrice p \<le> stopLossPrice q)
       \<and> (side p \<noteq> ''buy'' \<longrightarrow> stopLossPrice q \<le> stopLossPrice p)"
proof (induction curs arbitrary: st p)
  case Nil
  then show ?case by simp
next
  case (Cons cur curs)
  from updatePosition_stored [of st pid p cur, OF Cons.prems]
  obtain q where q: "fst (updatePosition st pid cur) pid = Some q" "side q = side p"
    "stopLossPrice q = stopLossPrice (markToMarket p cur)" by blast
  from Cons.IH [of "fst (updatePosition st pid cur)" q, OF q(1)]
  obtain r where r: "priceUpdates (fst (updatePosition st pid cur)) pid curs pid = Some r"
    "side r = side q"
    "side q = ''buy'' \<longrightarrow> stopLossPrice q \<le> stopLossPrice r"
    "side q \<noteq> ''buy'' \<longrightarrow> stopLossPrice r \<le> stopLossPrice q" by blast
  show ?case
  proof (cases "side p = ''buy''")
    case True
    with q r markToMarket_stop_long [OF True, of cur] show ?thesis by simp
  next
    case False
    with q r markToMarket_stop_short [OF False, of cur] show ?thesis by simp
  qed
qed

lemmas demo_defs = demoLong_def demoShort_def demoLongPosition_def demoShortPosition_def
  createPosition_def DEFAULT_RISK_CONFIG_def calculateStopLoss_def calculateTakeProfit_def
  calculateMultipleTakeProfits_def Let_def

lemmas update_defs = updatePosition_def markToMarket_def updateTrailingStop_def
  isStopLossHit_def isTakeProfitHit_def Let_def

text \<open>
  C1. The stored stop-loss of a position is monotonic in the profit-favourable direction over
  any sequence of price updates: between any two moments of the sequence the stop of a long
  (\<open>'buy'\<close>) position has not decreased and the stop of a short (\<open>'sell'\<close>) position has
  not increased. A price update whose trailing candidate (the price less, for a short plus,
  the trailing percentage) would loosen the stop leaves the stored stop-loss as it was.
\<close>

theorem C1_trailing_stop_monotonic:
  assumes "activePositions positionId = Some p"
  shows "(\<exists>q0 q. priceUpdates activePositions positionId curs positionId = Some q0
            \<and> priceUpdates activePositions positionId (curs @ later) positionId = Some q
            \<and> (side p = ''buy'' \<longrightarrow> stopLossPrice q0 \<le> stopLossPrice q)
            \<and> (side p = ''sell'' \<longrightarrow> stopLossPrice q \<le> stopLossPrice q0))
       \<and> (\<exists>q. fst (updatePosition activePositions positionId cur) positionId = Some q
            \<and> (side p = ''buy'' \<and> cur * (1 - trailingStopPercent p / 100) \<le> stopLossPrice p
                 \<longrightarrow> stopLossPrice q = stopLossPrice p)
            \<and> (side p = ''sell'' \<and> cur * (1 + trailingStopPercent p / 100) \<ge> stopLossPrice p
                 \<longrightarrow> stopLossPrice q = stopLossPrice p))"
proof
  from priceUpdates_stop [of activePositions positionId p curs, OF assms]
  obtain q0 where q0: "priceUpdates activePositions positionId curs positionId = Some q0"
    "side q0 = side p" by blast
  from priceUpdates_stop [of "priceUpdates activePositions positionId curs" positionId q0 later, OF q0(1)]
  obtain q where q: "priceUpdates (priceUpdates activePositions positionId curs) positionId later
                       positionId = Some q"
    "side q0 = ''buy'' \<longrightarrow> stopLossPrice q0 \<le> stopLossPrice q"
    "side q0 \<noteq> ''buy'' \<longrightarrow> stopLossPrice q \<le> stopLossPrice q0" by blast
  from q0 q show "\<exists>q0 q. priceUpdates activePositions positionId curs positionId = Some q0
            \<and> priceUpdates activePositions positionId (curs @ later) positionId = Some q
            \<and> (side p = ''buy'' \<longrightarrow> stopLossPrice q0 \<le> stopLossPrice q)
            \<and> (side p = ''sell'' \<longrightarrow> stopLossPrice q \<le> stopLossPrice q0)"
    by (auto simp: priceUpdates_append)
next
  from updatePosition_stored [of activePositions positionId p cur, OF assms]
  obtain q where q: "fst (updatePosition activePositions positionId cur) positionId = Some q"
    "stopLossPrice q = stopLossPrice (markToMarket p cur)" by blast
  then show "\<exists>q. fst (updatePosition activePositions positionId cur) positionId = Some q
            \<and> (side p = ''buy'' \<and> cur * (1 - trailingStopPercent p / 100) \<le> stopLossPrice p
                 \<longrightarrow> stopLossPrice q = stopLossPrice p)
            \<and> (side p = ''sell'' \<and> cur * (1 + trailingStopPercent p / 100) \<ge> stopLossPrice p
                 \<longrightarrow> stopLossPrice q = stopLossPrice p)"
    using markToMarket_keep_long [of p cur] markToMarket_keep_short [of p cur] by auto
qed


text \<open>
  A long and a short position opened at 100 with a 2% stop and a 1.5% trail: the long stop
  goes 98, 103.425, 108.35 over the prices 105, 103, 110 and stays 98 at the price 99; the
  short stop goes 102, 96.425, 91.35 over 95, 97, 90 and stays 102 at the price 101.
\<close>

theorem C1_trailing_stop_witness:
  "demoLong ''t1'' = Some demoLongPosition \<and> side demoLongPosition = ''buy''
   \<and> map_option stopLossPrice (priceUpdates demoLong ''t1'' [105] ''t1'') = Some (4137 / 40)
   \<and> map_option stopLossPrice (priceUpdates demoLong ''t1'' ([105] @ [103, 110]) ''t1'')
       = Some (2167 / 20)
   \<and> map_option stopLossPrice (fst (updatePosition demoLong ''t1'' 99) ''t1'') = Some 98
   \<and> demoShort ''t2'' = Some demoShortPosition \<and> side demoShortPosition = ''sell''
   \<and> map_option stopLossPrice (priceUpdates demoShort ''t2'' [95] ''t2'') = Some (3857 / 40)
   \<and> map_option stopLossPrice (priceUpdates demoShort ''t2'' ([95] @ [97, 90]) ''t2'')
       = Some (1827 / 20)
   \<and> map_option stopLossPrice (fst (updatePosition demoShort ''t2'' 101) ''t2'') = Some 102"
proof -
  have l: "demoLong ''t1'' = Some demoLongPosition" by (simp add: demo_defs)
  have s: "demoShort ''t2'' = Some demoShortPosition" by (simp add: demo_defs)
  show ?thesis
    using C1_trailing_stop_monotonic [of demoLong "''t1''" demoLongPosition "[105]" "[103, 110]" 99, OF l]
          C1_trailing_stop_monotonic [of demoShort "''t2''" demoShortPosition "[95]" "[97, 90]" 101, OF s]
    by (simp add: demo_defs update_defs)
qed






section \<open>Account risk controller: results on sizing and exposure\<close>

lemma toFixed_units_le:
  assumes "0 \<le> x" "x * 10 ^ d \<le> real N"
  shows "toFixed_units d x \<le> N"
proof -
  have "\<lfloor>x * 10 ^ d + 1 / 2\<rfloor> \<le> int N"
    using assms(2) by (simp add: floor_le_iff)
  then show ?thesis
    using assms(1) by (simp add: toFixed_units_def)
qed

lemma parseFloat_toFixed_bounds:
  assumes "0 \<le> x" "x * 10 ^ d \<le> real N"
  shows "0 \<le> parseFloat_toFixed d x \<and> parseFloat_toFixed d x \<le> real N / 10 ^ d"
proof -
  have "real (toFixed_units d x) \<le> real N"
    using toFixed_units_le [OF assms] by simp
  then show ?thesis
    using assms(1) by (simp add: parseFloat_toFixed_def divide_right_mono)
qed

lemma parseFloat_toFixed_cents: "\<bar>parseFloat_toFixed 2 x - x\<bar> \<le> 1 / 100"
proof -
  define z where "z = \<bar>x\<bar>"
  define F where "F = real_of_int \<lfloor>z * 100 + 1 / 2\<rfloor>"
  have z0: "0 \<le> z" by (simp add: z_def)
  have fl: "F \<le> z * 100 + 1 / 2" "z * 100 + 1 / 2 < F + 1"
    unfolding F_def by linarith+
  have nn: "0 \<le> \<lfloor>z * 100 + 1 / 2\<rfloor>" using z0 by simp
  have u: "real (toFixed_units 2 x) = F"
    using nn by (simp add: toFixed_units_def z_def F_def)
  have near: "\<bar>F / 100 - z\<bar> \<le> 1 / 200"
    using fl by linarith
  show ?thesis
  proof (cases "x < 0")
    case True
    then have "parseFloat_toFixed 2 x = - (F / 100)" "x = - z"
      by (simp_all add: parseFloat_toFixed_def u z_def)
    with near show ?thesis by linarith
  next
    case False
    then have "parseFloat_toFixed 2 x = F / 100" "x = z"
      by (simp_all add: parseFloat_toFixed_def u z_def)
    with near show ?thesis by linarith
  qed
qed

lemma clamp_half_bounds:
  "0 \<le> max 0 (min (a::real) 0.5) \<and> max 0 (min a 0.5) \<le> 1 / 2"
  by (simp add: max_def min_def)

lemma kelly_nonzero:
  assumes "winRate \<noteq> 0" "avgWin \<noteq> 0" "avgLoss \<noteq> 0"
  shows "kellyPercent (calculateKellyPositionSize winRate avgWin avgLoss portfolioValue fr)
          = parseFloat_toFixed 2
              (max 0 (min ((winRate / 100 * (avgWin / \<bar>avgLoss\<bar>) - (1 - winRate / 100))
                            / (avgWin / \<bar>avgLoss\<bar>)
                            * (case fr of None \<Rightarrow> 0.25 | Some f \<Rightarrow> f)) 0.5) * 100)
       \<and> positionSize (calculateKellyPositionSize winRate avgWin avgLoss portfolioValue fr)
          = parseFloat_toFixed 2
              (portfolioValue
               * max 0 (min ((winRate / 100 * (avgWin / \<bar>avgLoss\<bar>) - (1 - winRate / 100))
                              / (avgWin / \<bar>avgLoss\<bar>)
                              * (case fr of None \<Rightarrow> 0.25 | Some f \<Rightarrow> f)) 0.5))"
proof -
  from assms have c: "\<not> (winRate = 0 \<or> avgWin = 0 \<or> avgLoss = 0)" by simp
  show ?thesis
    unfolding calculateKellyPositionSize_def Let_def if_not_P [OF c]
    by (simp only: kelly_result.select_convs simp_thms)
qed

lemma kelly_size_bounds:
  "0 \<le> positionSize (calculateKellyPositionSize winRate avgWin avgLoss 10000 fr)
   \<and> positionSize (calculateKellyPositionSize winRate avgWin avgLoss 10000 fr) \<le> 5000"
proof (cases "winRate = 0 \<or> avgWin = 0 \<or> avgLoss = 0")
  case True
  then show ?thesis by (simp add: calculateKellyPositionSize_def)
next
  case False
  define k where "k = max 0 (min ((winRate / 100 * (avgWin / \<bar>avgLoss\<bar>) - (1 - winRate / 100))
                      / (avgWin / \<bar>avgLoss\<bar>) * (case fr of None \<Rightarrow> 0.25 | Some f \<Rightarrow> f)) 0.5)"
  have k: "0 \<le> k" "k \<le> 1 / 2"
    unfolding k_def using clamp_half_bounds by blast+
  have ps: "positionSize (calculateKellyPositionSize winRate avgWin avgLoss 10000 fr)
             = parseFloat_toFixed 2 (10000 * k)"
    unfolding k_def using False kelly_nonzero [of winRate avgWin avgLoss 10000 fr] by blast
  have "0 \<le> 10000 * k" "(10000 * k) * 10 ^ 2 \<le> real 500000" using k by simp_all
  from parseFloat_toFixed_bounds [OF this] ps show ?thesis by simp
qed

text \<open>
  C9. With nonzero win rate, average win and average loss, \<open>calculateKellyPositionSize\<close>
  takes the Kelly fraction \<open>(p b - q) / b\<close> for \<open>p = winRate / 100\<close>, \<open>q = 1 - p\<close> and
  \<open>b = avgWin / |avgLoss|\<close>, scales it by the safety fraction and clamps it to [0, 0.5]; the
  percentage it returns is within 0.01 of that fraction times 100, and the position size it
  returns is within one cent of that fraction times the portfolio value. For a portfolio of
  10000 the position size always lies in [0, 5000]. For win rate 60, average win 150, average
  loss 100 and safety fraction 0.25 the position size is 833.33 and the recommendation is the
  "Optimal position size" sentence. A zero win rate, average win or average loss gives a zero
  position and the insufficient-data message.
\<close>

theorem C9_kelly_position_size:
  "(winRate \<noteq> 0 \<and> avgWin \<noteq> 0 \<and> avgLoss \<noteq> 0 \<longrightarrow>
      \<bar>kellyPercent (calculateKellyPositionSize winRate avgWin avgLoss portfolioValue (Some fr))
        - max 0 (min ((winRate / 100 * (avgWin / \<bar>avgLoss\<bar>) - (1 - winRate / 100))
                       / (avgWin / \<bar>avgLoss\<bar>) * fr) 0.5) * 100\<bar> \<le> 1 / 100
      \<and> \<bar>positionSize (calculateKellyPositionSize winRate avgWin avgLoss portfolioValue (Some fr))
          - portfolioValue
            * max 0 (min ((winRate / 100 * (avgWin / \<bar>avgLoss\<bar>) - (1 - winRate / 100))
                           / (avgWin / \<bar>avgLoss\<bar>) * fr) 0.5)\<bar> \<le> 1 / 100)
   \<and> 0 \<le> positionSize (calculateKellyPositionSize winRate avgWin avgLoss 10000 (Some fr))
   \<and> positionSize (calculateKellyPositionSize winRate avgWin avgLoss 10000 (Some fr)) \<le> 5000
   \<and> positionSize (calculateKellyPositionSize 60 150 100 10000 (Some 0.25)) = 833.33
   \<and> recommendation (calculateKellyPositionSize 60 150 100 10000 (Some 0.25))
       = Some ''Optimal position size: $833.33 (8.3% of portfolio)''
   \<and> (winRate = 0 \<or> avgWin = 0 \<or> avgLoss = 0 \<longrightarrow>
        positionSize (calculateKellyPositionSize winRate avgWin avgLoss portfolioValue (Some fr)) = 0
        \<and> kellyPercent (calculateKellyPositionSize winRate avgWin avgLoss portfolioValue (Some fr))
            = 0
        \<and> message (calculateKellyPositionSize winRate avgWin avgLoss portfolioValue (Some fr))
            = Some ''Insufficient data for Kelly calculation'')"
proof -
  have general: "winRate \<noteq> 0 \<and> avgWin \<noteq> 0 \<and> avgLoss \<noteq> 0 \<longrightarrow>
      \<bar>kellyPercent (calculateKellyPositionSize winRate avgWin avgLoss portfolioValue (Some fr))
        - max 0 (min ((winRate / 100 * (avgWin / \<bar>avgLoss\<bar>) - (1 - winRate / 100))
                       / (avgWin / \<bar>avgLoss\<bar>) * fr) 0.5) * 100\<bar> \<le> 1 / 100
      \<and> \<bar>positionSize (calculateKellyPositionSize winRate avgWin avgLoss portfolioValue (Some fr))
          - portfolioValue
            * max 0 (min ((winRate / 100 * (avgWin / \<bar>avgLoss\<bar>) - (1 - winRate / 100))
                           / (avgWin / \<bar>avgLoss\<bar>) * fr) 0.5)\<bar> \<le> 1 / 100"
  proof (intro impI)
    assume nz: "winRate \<noteq> 0 \<and> avgWin \<noteq> 0 \<and> avgLoss \<noteq> 0"
    define k where "k = max 0 (min ((winRate / 100 * (avgWin / \<bar>avgLoss\<bar>) - (1 - winRate / 100))
                                   / (avgWin / \<bar>avgLoss\<bar>) * fr) 0.5)"
    from nz have n: "winRate \<noteq> 0" "avgWin \<noteq> 0" "avgLoss \<noteq> 0" by blast+
    note kn = kelly_nonzero [of winRate avgWin avgLoss portfolioValue "Some fr", OF n,
                             unfolded option.case, folded k_def]
    from kn
    have eqs: "kellyPercent (calculateKellyPositionSize winRate avgWin avgLoss portfolioValue
                 (Some fr)) = parseFloat_toFixed 2 (k * 100)"
      "positionSize (calculateKellyPositionSize winRate avgWin avgLoss portfolioValue
                 (Some fr)) = parseFloat_toFixed 2 (portfolioValue * k)"
      by blast+
    show "\<bar>kellyPercent (calculateKellyPositionSize winRate avgWin avgLoss portfolioValue
                (Some fr))
           - max 0 (min ((winRate / 100 * (avgWin / \<bar>avgLoss\<bar>) - (1 - winRate / 100))
                          / (avgWin / \<bar>avgLoss\<bar>) * fr) 0.5) * 100\<bar> \<le> 1 / 100
          \<and> \<bar>positionSize (calculateKellyPositionSize winRate avgWin avgLoss portfolioValue
                   (Some fr))
             - portfolioValue
               * max 0 (min ((winRate / 100 * (avgWin / \<bar>avgLoss\<bar>) - (1 - winRate / 100))
                              / (avgWin / \<bar>avgLoss\<bar>) * fr) 0.5)\<bar> \<le> 1 / 100"
      unfolding eqs k_def [symmetric]
      using parseFloat_toFixed_cents [of "k * 100"]
        parseFloat_toFixed_cents [of "portfolioValue * k"] by blast
  qed
  have units: "toFixed_units 2 (2500 / 3) = 83333" "toFixed_units 1 (25 / 3) = 83"
    by (simp_all add: toFixed_units_def)
  have digits: "show_nat 83333 = ''83333''" "show_nat 83 = ''83''"
    by (simp_all add: show_nat.simps digit_char_def)
  have fixed: "toFixed 2 (2500 / 3) = ''833.33''" "toFixed 1 (25 / 3) = ''8.3''"
    unfolding toFixed_def units digits Let_def by simp_all
  have size: "10000 * max 0 (min ((60 / 100 * (150 / \<bar>100\<bar>) - (1 - 60 / 100))
                 / (150 / \<bar>100\<bar>) * 0.25) 0.5) = (2500 / 3 :: real)"
    "max 0 (min ((60 / 100 * (150 / \<bar>100\<bar>) - (1 - 60 / 100))
                 / (150 / \<bar>100\<bar>) * 0.25) 0.5) * 100 = (25 / 3 :: real)"
    by simp_all
  have example: "positionSize (calculateKellyPositionSize 60 150 100 10000 (Some 0.25)) = 833.33"
    by (simp add: calculateKellyPositionSize_def Let_def parseFloat_toFixed_def units)
  have recom: "recommendation (calculateKellyPositionSize 60 150 100 10000 (Some 0.25))
       = Some ''Optimal position size: $833.33 (8.3% of portfolio)''"
    unfolding calculateKellyPositionSize_def Let_def option.case size fixed by simp
  have zero: "winRate = 0 \<or> avgWin = 0 \<or> avgLoss = 0 \<longrightarrow>
        positionSize (calculateKellyPositionSize winRate avgWin avgLoss portfolioValue (Some fr)) = 0
        \<and> kellyPercent (calculateKellyPositionSize winRate avgWin avgLoss portfolioValue (Some fr))
            = 0
        \<and> message (calculateKellyPositionSize winRate avgWin avgLoss portfolioValue (Some fr))
            = Some ''Insufficient data for Kelly calculation''"
    by (simp add: calculateKellyPositionSize_def)
  from general kelly_size_bounds [of winRate avgWin avgLoss "Some fr"] example recom zero
  show ?thesis by blast
qed

theorem C9_kelly_witness:
  "kellyPercent (calculateKellyPositionSize 60 150 100 10000 (Some 0.25)) = 8.33
   \<and> positionSize (calculateKellyPositionSize 60 150 100 10000 (Some 0.25)) = 833.33
   \<and> positionSize (calculateKellyPositionSize 0 150 100 10000 (Some 0.25)) = 0
   \<and> message (calculateKellyPositionSize 60 0 100 10000 (Some 0.25))
       = Some ''Insufficient data for Kelly calculation''
   \<and> message (calculateKellyPositionSize 60 150 0 10000 (Some 0.25))
       = Some ''Insufficient data for Kelly calculation''"
proof -
  have percent: "kellyPercent (calculateKellyPositionSize 60 150 100 10000 (Some 0.25)) = 8.33"
    by (simp add: calculateKellyPositionSize_def Let_def parseFloat_toFixed_def
          toFixed_units_def)
  have nz: "(60::real) \<noteq> 0 \<and> (150::real) \<noteq> 0 \<and> (100::real) \<noteq> 0" by simp
  from percent nz
    C9_kelly_position_size [of 60 150 100 10000 "0.25"]
    C9_kelly_position_size [of 0 150 100 10000 "0.25"]
    C9_kelly_position_size [of 60 0 100 10000 "0.25"]
    C9_kelly_position_size [of 60 150 0 10000 "0.25"]
  show ?thesis by blast
qed

text \<open>
  C5. The limiter adds the amount of the entry to the current total exposure as
  \<open>calculatePortfolioExposure\<close> reports it, which is rounded to cents, while the exposure per
  symbol is taken unrounded. With open trades of 2499, 2499 and 2499.00390625 in a portfolio of
  10000, an entry of 3 on a fourth symbol is accepted although the total exposure after the
  trade, 7500.00390625, is above 75% of the portfolio.
\<close>

theorem C5_rounded_total_admits_entry_over_cap:
  "ok (validatePortfolioLimits portfolioLimits0 ''ETHUSD'' 3 demoOpenTrades 10000)
   \<and> (fst (accumulateExposure (0, []) demoOpenTrades) + 3) / 10000
       > maxTotalExposure portfolioLimits0"
  by (simp add: validatePortfolioLimits_def calculatePortfolioExposure_def demoOpenTrades_def
        portfolioLimits0_def parseFloat_toFixed_def toFixed_units_def js_divide_def js_gt_def
        Let_def)

text \<open>
  In the other direction an entry that brings the total exactly to the cap is refused when the
  current total rounds up: 7497.0078125 is reported as 7497.01.
\<close>

lemma validatePortfolioLimits_refuses_entry_at_cap:
  "\<not> ok (validatePortfolioLimits portfolioLimits0 ''ETHUSD'' (3 - 1 / 128)
           [\<lparr>ot_status = ''open'', ot_amount = Some (7497 + 1 / 128),
             ot_symbol = Some ''BTCUSD''\<rparr>] 10000)
   \<and> ((7497 + 1 / 128) + (3 - 1 / 128)) / 10000 = maxTotalExposure portfolioLimits0"
  by (simp add: validatePortfolioLimits_def calculatePortfolioExposure_def
        portfolioLimits0_def parseFloat_toFixed_def toFixed_units_def js_divide_def js_gt_def
        Let_def)

text \<open>With a portfolio value of 0 the quotient is infinite and any positive entry is refused.\<close>

lemma validatePortfolioLimits_zero_portfolio:
  "validatePortfolioLimits portfolioLimits0 ''ETHUSD'' 3 [] 0
     = \<lparr>ok = False,
        lc_reason = Some ''Would exceed max total exposure (Infinity% > 75%)'',
        lc_currentExposure = Some ''0.0'', limit = Some ''75''\<rparr>"
proof -
  have digits: "show_nat 75 = ''75''" "show_nat 0 = ''0''"
    by (simp_all add: show_nat.simps digit_char_def)
  have units: "toFixed_units 1 0 = 0" "toFixed_units 0 75 = 75"
    by (simp_all add: toFixed_units_def)
  have fixed: "toFixed 1 0 = ''0.0''" "toFixed 0 75 = ''75''"
    unfolding toFixed_def units digits Let_def by simp_all
  have whole: "nat \<lfloor>\<bar>75 :: real\<bar>\<rfloor> = 75" "\<bar>75 :: real\<bar> = of_int \<lfloor>\<bar>75 :: real\<bar>\<rfloor>"
    by simp_all
  have number: "Number_toString 75 = ''75''"
    unfolding Number_toString_def whole(1) digits using whole(2) by simp
  have fixed1: "toFixed (Suc 0) 0 = ''0.0''" using fixed(1) by simp
  note strings = fixed fixed1 number
  show ?thesis
    by (simp add: validatePortfolioLimits_def calculatePortfolioExposure_def portfolioLimits0_def
          js_divide_def js_gt_def percentToFixed_def strings Let_def)
qed

section \<open>Indicator library: results\<close>

text \<open>
  C6. Whenever the average loss is 0 the code sets the relative strength to 100, so the index
  is \<open>100 - 100 / 101\<close>, about 99.01, and not 100: for the closes 1, 2, 3 and period 2 (two
  gains, no loss), and for a flat series as well.
\<close>

theorem C6_rsi_at_zero_average_loss:
  "rsiFromAverages avgGain 0 = 10000 / 101
   \<and> rsi [1, 2, 3] 2 = [None, None, Some (10000 / 101)]
   \<and> rsi [5, 5, 5, 5] 2 = [None, None, Some (10000 / 101), Some (10000 / 101)]"
  by (simp add: rsi_def rsiFromAverages_def Let_def eval_nat_numeral)

section \<open>Signal composer: results\<close>

lemma interpretRSI_strength: "0 \<le> strength (interpretRSI v)"
  by (simp add: interpretRSI_def split: option.splits)

text \<open>With bands of zero width and the price on them, the position in the bands is \<open>NaN\<close>.\<close>

lemma interpretBollingerBands_zero_width:
  "interpretBollingerBands 100 (Some 100) (Some 100) (Some 100)
     = \<lparr>i_signal = ''buy'', strength = 0.3, condition = ''normal'',
        description = Some ''Price at NaN% of Bollinger Bands''\<rparr>"
  by (simp add: interpretBollingerBands_def js_divide_def js_le_def js_ge_def js_gt_def
        percentToFixed_def Let_def)

lemma interpretMACD_strength: "0 \<le> strength (interpretMACD m s h p)"
  by (simp add: interpretMACD_def Let_def split: option.splits)

lemma interpretBollingerBands_strength: "0 \<le> strength (interpretBollingerBands px u m l)"
  by (simp add: interpretBollingerBands_def Let_def split: option.splits)

lemma Math_round_near: "\<bar>real_of_int (Math_round x) - x\<bar> \<le> 1 / 2"
proof -
  have "real_of_int \<lfloor>x + 1 / 2\<rfloor> \<le> x + 1 / 2" "x + 1 / 2 < real_of_int \<lfloor>x + 1 / 2\<rfloor> + 1"
    by linarith+
  then show ?thesis unfolding Math_round_def by linarith
qed

lemma weightedVote_nonneg:
  "\<forall>s \<in> set votes. 0 \<le> weight s \<Longrightarrow> 0 \<le> b \<Longrightarrow> 0 \<le> s
   \<Longrightarrow> 0 \<le> fst (weightedVote (b, s) votes) \<and> 0 \<le> snd (weightedVote (b, s) votes)"
  by (induction votes arbitrary: b s) auto


lemma smaVote_weights: "\<forall>s \<in> set (smaVote config closes). 0 \<le> weight s"
  by (simp add: smaVote_def Let_def)

lemma rsiVote_weights: "\<forall>s \<in> set (rsiVote config closes). 0 \<le> weight s"
  by (simp add: rsiVote_def Let_def interpretRSI_strength)

lemma macdVote_weights: "\<forall>s \<in> set (macdVote config closes). 0 \<le> weight s"
  by (simp add: macdVote_def Let_def interpretMACD_strength)

lemma bbVote_weights: "\<forall>s \<in> set (bbVote config closes px). 0 \<le> weight s"
  by (simp add: bbVote_def Let_def interpretBollingerBands_strength)

lemma volumeVotes_weights:
  "\<forall>s \<in> set votes. 0 \<le> weight s \<Longrightarrow> \<forall>s \<in> set (volumeVotes config candles votes). 0 \<le> weight s"
  by (simp add: volumeVotes_def Let_def)

lemma collectSignals_weights: "\<forall>s \<in> set (collectSignals config candles). 0 \<le> weight s"
  unfolding collectSignals_def Let_def
  by (rule volumeVotes_weights)
     (simp add: smaVote_weights rsiVote_weights macdVote_weights bbVote_weights ball_Un)

text \<open>
  C4. For a window of at least 100 candles the composer decides from the buy and the sell
  accumulator of the weighted vote: with both at zero the signal is \<open>'hold'\<close> with confidence
  0; with the two equal the signal is \<open>'hold'\<close> (again with confidence 0); otherwise the side
  with the strictly higher accumulator wins, and the confidence is its accumulator divided by
  the sum of both, scaled to 0--100 by \<open>Math.round(... * 100)\<close>, hence within one half of
  the exact percentage. The accumulators are never negative, and the confidence always lies
  between 0 and 100.
\<close>

theorem C4_final_decision:
  assumes "length candles \<ge> 100"
  shows "\<exists>buy sell. weightedVote (0, 0) (collectSignals config candles) = (buy, sell)
          \<and> (buy = 0 \<and> sell = 0 \<longrightarrow>
               signal (composeSignal now config candles) = ''hold''
               \<and> confidence (composeSignal now config candles) = 0)
          \<and> (buy = sell \<longrightarrow>
               signal (composeSignal now config candles) = ''hold''
               \<and> confidence (composeSignal now config candles) = 0)
          \<and> (buy > sell \<longrightarrow>
               signal (composeSignal now config candles) = ''buy''
               \<and> confidence (composeSignal now config candles)
                   = Math_round (buy / (buy + sell) * 100)
               \<and> \<bar>real_of_int (confidence (composeSignal now config candles))
                    - buy / (buy + sell) * 100\<bar> \<le> 1 / 2)
          \<and> (sell > buy \<longrightarrow>
               signal (composeSignal now config candles) = ''sell''
               \<and> confidence (composeSignal now config candles)
                   = Math_round (sell / (buy + sell) * 100)
               \<and> \<bar>real_of_int (confidence (composeSignal now config candles))
                    - sell / (buy + sell) * 100\<bar> \<le> 1 / 2)
          \<and> 0 \<le> confidence (composeSignal now config candles)
          \<and> confidence (composeSignal now config candles) \<le> 100"
proof -
  obtain buy sell where v: "weightedVote (0, 0) (collectSignals config candles) = (buy, sell)"
    by (cases "weightedVote (0, 0) (collectSignals config candles)")
  from weightedVote_nonneg [OF collectSignals_weights, of 0 0 config candles] v
  have nn: "0 \<le> buy" "0 \<le> sell" by simp_all
  have long: "\<not> length candles < 100" using assms by simp
  have sg: "signal (composeSignal now config candles)
              = (if buy + sell = 0 then ''hold'' else if buy > sell then ''buy''
                 else if sell > buy then ''sell'' else ''hold'')"
    using long v by (simp add: composeSignal_def Let_def)
  have cf: "confidence (composeSignal now config candles)
              = Math_round ((if buy + sell = 0 then 0 else if buy > sell then buy / (buy + sell)
                 else if sell > buy then sell / (buy + sell) else 0) * 100)"
    using long v by (simp add: composeSignal_def Let_def)
  have r0: "Math_round 0 = 0" by (simp add: Math_round_def)
  have ratio: "0 \<le> Math_round (x / (buy + sell) * 100) \<and> Math_round (x / (buy + sell) * 100) \<le> 100"
    if "0 \<le> x" "x \<le> buy + sell" "buy + sell \<noteq> 0" for x
  proof -
    define q where "q = x / (buy + sell)"
    from nn that have pos: "0 < buy + sell" by simp
    from that pos have "0 \<le> q" "q \<le> 1" by (simp_all add: q_def)
    then have "0 \<le> Math_round (q * 100) \<and> Math_round (q * 100) \<le> 100"
      by (simp add: Math_round_def floor_le_iff le_floor_iff)
    then show ?thesis by (simp only: q_def)
  qed
  have bounds: "0 \<le> confidence (composeSignal now config candles)
                \<and> confidence (composeSignal now config candles) \<le> 100"
    using nn ratio [of buy] ratio [of sell] by (simp add: cf r0)
  from nn have z: "buy + sell = 0 \<longleftrightarrow> buy = 0 \<and> sell = 0" by linarith
  note near = Math_round_near [of "buy / (buy + sell) * 100"]
    Math_round_near [of "sell / (buy + sell) * 100"]
  show ?thesis
    using v bounds nn z near by (auto simp add: sg cf r0)
qed

lemma length_rampCandles: "length (rampCandles n t px d) = n"
  by (induction n arbitrary: t px) simp_all

lemma changes_cons_ramp:
  "changes (a # map c_close (rampCandles (Suc n) t px d))
     = (px - a) # changes (map c_close (rampCandles (Suc n) t px d))"
  by simp

lemma changes_rampCandles:
  "changes (map c_close (rampCandles (Suc n) t px d)) = replicate n d"
proof (induction n arbitrary: t px)
  case 0
  show ?case by simp
next
  case (Suc n)
  have "map c_close (rampCandles (Suc (Suc n)) t px d)
          = px # map c_close (rampCandles (Suc n) (t + 60000) (px + d) d)"
    by (simp only: rampCandles.simps list.map candle.select_convs)
  then have "changes (map c_close (rampCandles (Suc (Suc n)) t px d))
          = (px + d - px) # changes (map c_close (rampCandles (Suc n) (t + 60000) (px + d) d))"
    by (simp only: changes_cons_ramp)
  also have "\<dots> = d # replicate n d"
    by (simp only: Suc.IH) simp
  finally show ?case by simp
qed

lemma seed_falling:
  "d < 0 \<Longrightarrow> seedGainsLosses (g, l) (replicate k d) = (g, l + real k * \<bar>d\<bar>)"
  by (induction k arbitrary: l) (simp_all add: algebra_simps)

lemma seed_rising:
  "d > 0 \<Longrightarrow> seedGainsLosses (g, l) (replicate k d) = (g + real k * d, l)"
  by (induction k arbitrary: g) (simp_all add: algebra_simps)

lemma smoothed_falling:
  "rsiSmoothed 14 0 1 (replicate n (- 1)) = replicate n (Some 0)"
  by (induction n) (simp_all add: rsiFromAverages_def Let_def)

lemma smoothed_rising:
  "rsiSmoothed 14 1 0 (replicate n 1) = replicate n (Some (10000 / 101))"
  by (induction n) (simp_all add: rsiFromAverages_def Let_def)

lemma rsi_falling:
  "lastValue (rsi (map c_close (rampCandles 100 0 200 (- 1))) 14) = Some 0"
proof -
  have n: "(100::nat) = Suc 99" by simp
  have ch: "changes (map c_close (rampCandles 100 0 200 (- 1))) = replicate 99 (- 1)"
    unfolding n by (rule changes_rampCandles)
  have "rsi (map c_close (rampCandles 100 0 200 (- 1))) 14
          = replicate 14 None @ [Some 0] @ replicate 85 (Some 0)"
    by (simp add: rsi_def ch length_rampCandles seed_falling smoothed_falling
          rsiFromAverages_def Let_def)
  then show ?thesis by (simp add: lastValue_def)
qed

lemma rsi_rising:
  "lastValue (rsi (map c_close (rampCandles 100 0 100 1)) 14) = Some (10000 / 101)"
proof -
  have n: "(100::nat) = Suc 99" by simp
  have ch: "changes (map c_close (rampCandles 100 0 100 1)) = replicate 99 1"
    unfolding n by (rule changes_rampCandles)
  have "rsi (map c_close (rampCandles 100 0 100 1)) 14
          = replicate 14 None @ [Some (10000 / 101)] @ replicate 85 (Some (10000 / 101))"
    by (simp add: rsi_def ch length_rampCandles seed_rising smoothed_rising
          rsiFromAverages_def Let_def)
  then show ?thesis by (simp add: lastValue_def)
qed

lemma votes_falling:
  "collectSignals rsiOnly (rampCandles 100 0 200 (- 1))
     = [\<lparr>ws_signal = ''buy'', weight = 0.9, source = ''RSI''\<rparr>]"
  by (simp add: collectSignals_def smaVote_def rsiVote_def macdVote_def bbVote_def
        volumeVotes_def rsiOnly_def composeDefaults_def rsi_falling interpretRSI_def Let_def)

lemma votes_rising:
  "collectSignals rsiOnly (rampCandles 100 0 100 1)
     = [\<lparr>ws_signal = ''sell'', weight = 0.9 * (2930 / 3030), source = ''RSI''\<rparr>]"
  by (simp add: collectSignals_def smaVote_def rsiVote_def macdVote_def bbVote_def
        volumeVotes_def rsiOnly_def composeDefaults_def rsi_rising interpretRSI_def Let_def)

lemma votes_none:
  "collectSignals noIndicators candles = []"
  by (simp add: collectSignals_def smaVote_def rsiVote_def macdVote_def bbVote_def
        volumeVotes_def noIndicators_def rsiOnly_def composeDefaults_def Let_def)

text \<open>
  On 100 candles falling by 1 from 200 the RSI alone votes buy, on 100 candles rising by 1 from
  100 it alone votes sell, each with confidence 100; with no indicator enabled the signal is
  hold with confidence 0.
\<close>

theorem C4_final_decision_witness:
  "100 \<le> length (rampCandles 100 0 200 (- 1))
   \<and> weightedVote (0, 0) (collectSignals rsiOnly (rampCandles 100 0 200 (- 1))) = (0.9, 0)
   \<and> signal (composeSignal 0 rsiOnly (rampCandles 100 0 200 (- 1))) = ''buy''
   \<and> confidence (composeSignal 0 rsiOnly (rampCandles 100 0 200 (- 1))) = 100
   \<and> signal (composeSignal 0 rsiOnly (rampCandles 100 0 100 1)) = ''sell''
   \<and> confidence (composeSignal 0 rsiOnly (rampCandles 100 0 100 1)) = 100
   \<and> weightedVote (0, 0) (collectSignals noIndicators (rampCandles 100 0 100 1)) = (0, 0)
   \<and> signal (composeSignal 0 noIndicators (rampCandles 100 0 100 1)) = ''hold''
   \<and> confidence (composeSignal 0 noIndicators (rampCandles 100 0 100 1)) = 0"
proof -
  have l1: "100 \<le> length (rampCandles 100 0 200 (- 1))"
    and l2: "100 \<le> length (rampCandles 100 0 100 1)"
    by (simp_all add: length_rampCandles)
  show ?thesis
    using C4_final_decision [of "rampCandles 100 0 200 (- 1)" rsiOnly 0, OF l1]
          C4_final_decision [of "rampCandles 100 0 100 1" rsiOnly 0, OF l2]
          C4_final_decision [of "rampCandles 100 0 100 1" noIndicators 0, OF l2]
    by (simp add: composeSignal_def length_rampCandles votes_falling votes_rising votes_none
          Math_round_def Let_def)
qed

section \<open>Short windows: results\<close>

text \<open>
  C7. On a window of fewer than 100 candles the signal composer, the market regime classifier
  and the strategy selection entry point each return their neutral result with confidence 0
  (hold; choppy with recommended strategy hold; hold with strategy none), whatever the
  analyses and strategies they would otherwise call do, so none of them throws; the strategy
  manager's state is left as it was.
\<close>

theorem C7_short_window_is_neutral:
  assumes "length candles < 100"
  shows "signal (composeSignal now config candles) = ''hold''
       \<and> confidence (composeSignal now config candles) = 0
       \<and> (\<exists>r. detectMarketRegime analyses now candles = Inr r \<and> regime r = ''choppy''
              \<and> rg_confidence r = 0 \<and> recommendedStrategy r = ''hold'')
       \<and> (\<exists>s. analyzeWithOptimalStrategy family analyses now st candles mconfig = (st, Inr s)
              \<and> es_signal s = ''hold'' \<and> es_confidence s = 0 \<and> strategy s = ''none'')"
proof (intro conjI)
  show "signal (composeSignal now config candles) = ''hold''"
    using assms by (simp add: composeSignal_def)
  show "confidence (composeSignal now config candles) = 0"
    using assms by (simp add: composeSignal_def)
  show "\<exists>r. detectMarketRegime analyses now candles = Inr r \<and> regime r = ''choppy''
              \<and> rg_confidence r = 0 \<and> recommendedStrategy r = ''hold''"
    using assms by (simp add: detectMarketRegime_def)
  show "\<exists>s. analyzeWithOptimalStrategy family analyses now st candles mconfig = (st, Inr s)
              \<and> es_signal s = ''hold'' \<and> es_confidence s = 0 \<and> strategy s = ''none''"
    using assms by (simp add: analyzeWithOptimalStrategy_def Let_def)
qed

text \<open>
  A window of 99 candles, with analyses and strategies that would all throw if they were
  called.
\<close>

theorem C7_short_window_witness:
  "length (rampCandles 99 0 100 1) < 100
   \<and> signal (composeSignal 0 composeDefaults (rampCandles 99 0 100 1)) = ''hold''
   \<and> confidence (composeSignal 0 composeDefaults (rampCandles 99 0 100 1)) = 0
   \<and> map_sum id regime (detectMarketRegime throwingAnalyses 0 (rampCandles 99 0 100 1))
       = Inr ''choppy''
   \<and> map_sum id es_signal
        (snd (analyzeWithOptimalStrategy throwingFamily throwingAnalyses 0 managerState0
                (rampCandles 99 0 100 1) \<lparr>autoSwitch = None, forceStrategy = None\<rparr>))
       = Inr ''hold''"
proof -
  have short: "length (rampCandles 99 0 100 1) < 100" by (simp add: length_rampCandles)
  show ?thesis
    using C7_short_window_is_neutral
            [of "rampCandles 99 0 100 1" 0 composeDefaults throwingAnalyses throwingFamily
                managerState0 "\<lparr>autoSwitch = None, forceStrategy = None\<rparr>", OF short]
    by (auto simp add: short)
qed

section \<open>Backtest replay engine: results\<close>

lemma resolveConfig_sameTrading:
  "sameTrading (resolveConfig clock1 config) (resolveConfig clock2 config)"
  by (simp add: sameTrading_def resolveConfig_def)

lemma closeTrade_sameTrading:
  "sameTrading rc rc' \<Longrightarrow> closeTrade rc st pos cndl why = closeTrade rc' st pos cndl why"
  by (simp add: sameTrading_def closeTrade_def)

lemma sameTrading_fields:
  assumes "sameTrading rc rc'"
  shows "rn_symbol rc = rn_symbol rc'" "rn_strategy rc = rn_strategy rc'"
    "initialCapital rc = initialCapital rc'" "rn_positionSize rc = rn_positionSize rc'"
    "feeRate rc = feeRate rc'" "slippage rc = slippage rc'"
  using assms by (simp_all add: sameTrading_def)

lemma replayCandle_sameTrading:
  assumes "sameTrading rc rc'"
  shows "replayCandle rc candles st i = replayCandle rc' candles st i"
  unfolding replayCandle_def closeTrade_sameTrading [OF assms] sameTrading_fields [OF assms]
  by (rule refl)

lemma replay_sameTrading:
  assumes "sameTrading rc rc'"
  shows "replay rc candles = replay rc' candles"
proof -
  have step: "replayCandle rc candles = replayCandle rc' candles"
    by (intro ext) (rule replayCandle_sameTrading [OF assms])
  show ?thesis
    unfolding replay_def step closeTrade_sameTrading [OF assms] sameTrading_fields [OF assms]
    by (rule refl)
qed

text \<open>
  C8. The trade list and the equity curve of \<open>runBacktest\<close> (or the error it throws) are a
  function of the configuration and the candle data alone: two runs with the same
  configuration and the same candles give the same trade list and the same equity curve,
  whatever the clock reads during each run.
\<close>

theorem C8_backtest_deterministic:
  "map_sum id (\<lambda>r. (bt_trades r, equityCurve r)) (runBacktest clock1 config fetched)
     = map_sum id (\<lambda>r. (bt_trades r, equityCurve r)) (runBacktest clock2 config fetched)"
proof -
  have same: "sameTrading (resolveConfig clock1 config) (resolveConfig clock2 config)"
    by (rule resolveConfig_sameTrading)
  then have fields: "rn_positionSize (resolveConfig clock1 config)
                       = rn_positionSize (resolveConfig clock2 config)"
    "initialCapital (resolveConfig clock1 config) = initialCapital (resolveConfig clock2 config)"
    by (simp_all add: sameTrading_def)
  show ?thesis
    by (simp add: runBacktest_def Let_def fields replay_sameTrading [OF same]
          split: option.splits)
qed

end
